theory Spec2Isabelle
  imports Main "HOL-Library.AList"
begin

section \<open>Patches and errors\<close>

text \<open>
  The patch operations of typed-patch that \<^verbatim>\<open>store.js\<close> dispatches on:
  \<^verbatim>\<open>Operations.Rpl\<close>, \<^verbatim>\<open>Operations.Ins\<close>, the singleton \<^verbatim>\<open>Operations.DEL\<close> and
  \<^verbatim>\<open>Operations.Mrg\<close>. In typed-patch \<^verbatim>\<open>Ins\<close> is a subclass of \<^verbatim>\<open>Rpl\<close>, so an \<^verbatim>\<open>Ins\<close> passes
  the test \<^verbatim>\<open>instanceof Operations.Rpl\<close> (\<open>instanceof_Rpl\<close>); the other classes are
  unrelated. The \<^verbatim>\<open>data\<close> of a \<^verbatim>\<open>Mrg\<close> is an object from field names to
  operations; it is kept as the list of its properties in the order \<^verbatim>\<open>for (name in diff)\<close>
  visits them. Plain data (the \<^verbatim>\<open>data\<close> of \<^verbatim>\<open>Rpl\<close> and \<^verbatim>\<open>Ins\<close>, documents) has type \<open>'v\<close>.
  A batch (\<^verbatim>\<open>Operations.Map\<close>) is the list of its \<^verbatim>\<open>[key, op]\<close> entries.
\<close>

datatype 'v patch =
    Rpl 'v
  | Ins 'v
  | DEL
  | Mrg "(string \<times> 'v patch) list"

type_synonym 'v diff = "(string \<times> 'v patch) list"

type_synonym ('k, 'v) batch = "('k \<times> 'v patch) list"

text \<open>
  Exceptions raised by the code itself: \<^verbatim>\<open>new Error(message)\<close>, and the \<^verbatim>\<open>TypeError\<close> of
  the runtime when a property is read from \<^verbatim>\<open>undefined\<close> or a built-in is called on
  \<^verbatim>\<open>undefined\<close>.
\<close>

datatype exn =
    Error string
  | TypeError


text \<open>
  The update instruction handed to \<^verbatim>\<open>updateOne\<close>: an object with the optional properties
  \<^verbatim>\<open>$set\<close> and \<^verbatim>\<open>$unset\<close>, each an object from paths to values. An assignment
  \<^verbatim>\<open>obj[k] = v\<close> overwrites the value of an existing property in place and appends a new
  one, which is \<^const>\<open>AList.update\<close>.
\<close>

record 'v mongo =
  dollar_set :: "(string \<times> 'v) list option"
  dollar_unset :: "(string \<times> string) list option"

text \<open>
  \<^verbatim>\<open>op.data\<close>, read as the object whose properties \<^verbatim>\<open>_diffToMongo\<close> iterates. Only the
  data of a \<^verbatim>\<open>Mrg\<close> has properties that are operations: iterating plain data (or the
  \<^verbatim>\<open>undefined\<close> data of \<^verbatim>\<open>DEL\<close>) meets no operation, as iterating an empty object does.
\<close>

fun data_fields :: "'v patch \<Rightarrow> 'v diff" where
  "data_fields (Mrg fs) = fs"
| "data_fields (Rpl v) = []"
| "data_fields (Ins v) = []"
| "data_fields DEL = []"

section \<open>The diff translator\<close>

text \<open>
  \<^verbatim>\<open>
  static _diffToMongo(diff, mongo, context) {
      for (let name in diff) {
          let property = diff[name];
          if (property instanceof Operations.Rpl)
              mongo.$set[context + name] = property.data;
          else if (property === Operations.DEL)
              mongo.$unset[context + name] = '';
          else if (property instanceof Operations.Mrg)
              Store.diffToMongo(diff[property].data, mongo, context + property + '.');
      }
      return mongo;
  }
  static diffToMongo(diff) {
      let mongo = Store._diffToMongo(diff, { $set: {}, $unset: {}}, '');
      if (Object.getOwnPropertyNames(mongo.$set).length === 0) delete mongo.$set;
      if (Object.getOwnPropertyNames(mongo.$unset).length === 0) delete mongo.$unset;
      return mongo;
  }
  \<close>
  In the \<^verbatim>\<open>Mrg\<close> branch the callee is \<^verbatim>\<open>Store.diffToMongo\<close>, which has the single parameter
  \<^verbatim>\<open>diff\<close>: the arguments \<^verbatim>\<open>mongo\<close> and \<^verbatim>\<open>context + property + '.'\<close> are dropped, the
  callee starts from a fresh \<^verbatim>\<open>{ $set: {}, $unset: {}}\<close>, and its result is not used. Its
  argument is \<^verbatim>\<open>diff[property].data\<close>: the operation \<^verbatim>\<open>property\<close> is converted to a string
  and looked up as a property name of \<^verbatim>\<open>diff\<close>; reading \<^verbatim>\<open>.data\<close> of \<^verbatim>\<open>undefined\<close> raises
  a \<^verbatim>\<open>TypeError\<close>. The string conversion of an operation belongs to typed-patch and is the
  parameter \<open>toStr\<close>. \<open>for_name_in\<close> is the loop: it takes the whole \<open>diff\<close> (for the
  lookup) and the properties still to visit. The first test holds of an \<^verbatim>\<open>Ins\<close> as well as
  of a \<^verbatim>\<open>Rpl\<close>, so both are assigned in \<^verbatim>\<open>$set\<close>. Property lookup in \<^verbatim>\<open>diff\<close> is among its
  own properties.
\<close>

function diffToMongo :: "('v patch \<Rightarrow> string) \<Rightarrow> 'v diff \<Rightarrow> exn + 'v mongo"
  and underscore_diffToMongo ::
    "('v patch \<Rightarrow> string) \<Rightarrow> 'v diff \<Rightarrow> 'v mongo \<Rightarrow> string \<Rightarrow> exn + 'v mongo"
  and for_name_in ::
    "('v patch \<Rightarrow> string) \<Rightarrow> 'v diff \<Rightarrow> 'v diff \<Rightarrow> 'v mongo \<Rightarrow> string \<Rightarrow> exn + 'v mongo"
where
  "diffToMongo toStr diff =
     (case underscore_diffToMongo toStr diff \<lparr>dollar_set = Some [], dollar_unset = Some []\<rparr> [] of
        Inl e \<Rightarrow> Inl e
      | Inr mongo \<Rightarrow>
          (case dollar_set mongo of
             None \<Rightarrow> Inl TypeError
           | Some s \<Rightarrow>
               (let mongo1 = (if length s = 0 then mongo\<lparr>dollar_set := None\<rparr> else mongo)
                in (case dollar_unset mongo1 of
                      None \<Rightarrow> Inl TypeError
                    | Some u \<Rightarrow>
                        Inr (if length u = 0 then mongo1\<lparr>dollar_unset := None\<rparr>
                             else mongo1)))))"
| "underscore_diffToMongo toStr diff mongo context = for_name_in toStr diff diff mongo context"
| "for_name_in toStr diff [] mongo context = Inr mongo"
| "for_name_in toStr diff ((name, property) # rest) mongo context =
     (case property of
        Rpl data \<Rightarrow>
          (case dollar_set mongo of
             None \<Rightarrow> Inl TypeError
           | Some s \<Rightarrow>
               for_name_in toStr diff rest
                 (mongo\<lparr>dollar_set := Some (AList.update (context @ name) data s)\<rparr>) context)
      | DEL \<Rightarrow>
          (case dollar_unset mongo of
             None \<Rightarrow> Inl TypeError
           | Some u \<Rightarrow>
               for_name_in toStr diff rest
                 (mongo\<lparr>dollar_unset := Some (AList.update (context @ name) [] u)\<rparr>) context)
      | Mrg sub \<Rightarrow>
          (case map_of diff (toStr property) of
             None \<Rightarrow> Inl TypeError
           | Some q \<Rightarrow>
               (case diffToMongo toStr (data_fields q) of
                  Inl e \<Rightarrow> Inl e
                | Inr ignored \<Rightarrow> for_name_in toStr diff rest mongo context))
      | Ins data \<Rightarrow>
          (case dollar_set mongo of
             None \<Rightarrow> Inl TypeError
           | Some s \<Rightarrow>
               for_name_in toStr diff rest
                 (mongo\<lparr>dollar_set := Some (AList.update (context @ name) data s)\<rparr>) context))"
  by pat_completeness auto
termination
proof -
  have smaller: "size (Mrg (data_fields q)) < size (Mrg diff)"
    if "map_of diff s = Some q" for diff :: "'v diff" and s q
    using that
  proof (induction diff)
    case Nil
    then show ?case by simp
  next
    case (Cons a diff)
    then show ?case by (cases a; cases q) (auto split: if_splits)
  qed
  show ?thesis
    apply (relation "measures [
       (\<lambda>x. case x of Inl (t, d) \<Rightarrow> size (Mrg d)
                     | Inr (Inl (t, d, m, c)) \<Rightarrow> size (Mrg d)
                     | Inr (Inr (t, d, r, m, c)) \<Rightarrow> size (Mrg d)),
       (\<lambda>x. case x of Inl (t, d) \<Rightarrow> 2
                     | Inr (Inl (t, d, m, c)) \<Rightarrow> 1
                     | Inr (Inr (t, d, r, m, c)) \<Rightarrow> 0),
       (\<lambda>x. case x of Inl (t, d) \<Rightarrow> 0
                     | Inr (Inl (t, d, m, c)) \<Rightarrow> 0
                     | Inr (Inr (t, d, r, m, c)) \<Rightarrow> length r)]")
    using smaller by (auto simp del: patch.size)
qed

section \<open>The index map\<close>

text \<open>
  An index is a named function \<^verbatim>\<open>(value, item) => boolean\<close>; the store reads only its
  \<^verbatim>\<open>name\<close>. The criteria built by \<^verbatim>\<open>addSimpleField\<close> are plain objects, kept as property
  lists (\<open>Fields\<close>).
  \<^verbatim>\<open>
  constructor() { this.maps = {}; }
  addSimpleField(index, name) {
      this.maps[index.name] = value =>
          Object.defineProperty({}, name, { value: value, enumerable: true, writable: false });
      return this;
  }
  toMongoCriteria(index, value) {
      let map = this.maps[index.name];
      if (map === undefined) throw new Error('mongo does not understand index ' + index.name);
      return map(value);
  }
  \<close>
  \<^verbatim>\<open>addSimpleField\<close> changes \<^verbatim>\<open>this\<close> and returns it: the model returns the changed map.

  \<^verbatim>\<open>this.maps\<close> is created as \<^verbatim>\<open>{}\<close>, an object whose prototype is \<^verbatim>\<open>Object.prototype\<close>, and
  \<^verbatim>\<open>this.maps[index.name]\<close> reads an own property or, when there is none of that name, the
  inherited one. \<open>maps\<close> holds the own properties and \<open>prototype\<close> the inherited ones,
  each as what calling it on the value gives (\<^verbatim>\<open>map(value)\<close>, with \<^verbatim>\<open>this\<close> undefined in
  strict mode): \<^verbatim>\<open>constructor\<close> is \<^verbatim>\<open>Object\<close> and returns \<^verbatim>\<open>Object(value)\<close>, \<^verbatim>\<open>toString\<close> returns
  the string \<^verbatim>\<open>[object Undefined]\<close>; what the other members do on \<^verbatim>\<open>undefined\<close> belongs to
  the runtime and is the parameter \<open>builtin\<close> (\<^verbatim>\<open>__proto__\<close> is not a function, so calling it
  raises). What \<^verbatim>\<open>toMongoCriteria\<close> returns is then not always a criteria object.
\<close>

record index =
  index_name :: string

datatype 'v criteria =
    Fields "(string \<times> 'v) list"
  | Object_of 'v
  | Text string
  | Boolean bool
  | Undefined

definition Object_prototype_names :: "string list" where
  "Object_prototype_names =
     [''constructor'', ''toString'', ''valueOf'', ''toLocaleString'', ''hasOwnProperty'',
      ''isPrototypeOf'', ''propertyIsEnumerable'', ''__defineGetter__'', ''__defineSetter__'',
      ''__lookupGetter__'', ''__lookupSetter__'', ''__proto__'']"

definition Object_prototype ::
  "(string \<Rightarrow> 'v \<Rightarrow> exn + 'v criteria) \<Rightarrow> string \<rightharpoonup> ('v \<Rightarrow> exn + 'v criteria)" where
  "Object_prototype builtin name =
     (if name = ''constructor'' then Some (\<lambda>value. Inr (Object_of value))
      else if name = ''toString'' then Some (\<lambda>value. Inr (Text ''[object Undefined]''))
      else if name = ''__proto__'' then Some (\<lambda>value. Inl TypeError)
      else if name \<in> set Object_prototype_names then Some (builtin name)
      else None)"

record 'v IndexMap =
  maps :: "string \<rightharpoonup> ('v \<Rightarrow> 'v criteria)"
  prototype :: "string \<rightharpoonup> ('v \<Rightarrow> exn + 'v criteria)"

definition new_IndexMap :: "(string \<Rightarrow> 'v \<Rightarrow> exn + 'v criteria) \<Rightarrow> 'v IndexMap" where
  "new_IndexMap builtin = \<lparr>maps = Map.empty, prototype = Object_prototype builtin\<rparr>"

definition addSimpleField :: "'v IndexMap \<Rightarrow> index \<Rightarrow> string \<Rightarrow> 'v IndexMap" where
  "addSimpleField this index name =
     this\<lparr>maps := (maps this)(index_name index \<mapsto> (\<lambda>value. Fields [(name, value)]))\<rparr>"

definition toMongoCriteria :: "'v IndexMap \<Rightarrow> index \<Rightarrow> 'v \<Rightarrow> exn + 'v criteria" where
  "toMongoCriteria this index value =
     (case maps this (index_name index) of
        Some m \<Rightarrow> Inr (m value)
      | None \<Rightarrow>
          (case prototype this (index_name index) of
             Some inherited \<Rightarrow> inherited value
           | None \<Rightarrow> Inl (Error (''mongo does not understand index '' @ index_name index))))"

section \<open>The collection and the store\<close>

text \<open>
  The collection is the constructor argument of \<^verbatim>\<open>Store\<close>, an object of the MongoDB
  driver. It is a parameter: a record of the methods the store calls, each taking the
  backing state \<open>'c\<close> and returning its reply with the new backing state. A reply is the
  value the returned promise resolves with, or \<open>Failure\<close> when it rejects. The second
  argument of \<^verbatim>\<open>updateOne\<close> is either a document (\<^verbatim>\<open>options.entry(_id, object)\<close>) or the
  instruction built by \<^verbatim>\<open>diffToMongo\<close>; the third says whether \<^verbatim>\<open>upsert: true\<close> was passed.
  \<open>find_toArray\<close> is \<^verbatim>\<open>collection.find(criteria).toArray()\<close>.
\<close>

datatype 'a reply =
    Failure
  | Reply 'a

datatype 'v update_arg =
    Document 'v
  | Instruction "'v mongo"

record ('k, 'v, 'x, 'c) collection =
  findOne :: "'k \<Rightarrow> 'c \<Rightarrow> 'v option reply \<times> 'c"
  find_toArray :: "'v criteria \<Rightarrow> 'c \<Rightarrow> 'v list reply \<times> 'c"
  updateOne :: "'k \<Rightarrow> 'v update_arg \<Rightarrow> bool \<Rightarrow> 'c \<Rightarrow> unit reply \<times> 'c"
  remove_criteria :: "'v criteria \<Rightarrow> 'c \<Rightarrow> unit reply \<times> 'c"
  deleteMany :: "'k list \<Rightarrow> 'c \<Rightarrow> unit reply \<times> 'c"
  insertMany :: "'x list \<Rightarrow> 'c \<Rightarrow> unit reply \<times> 'c"

text \<open>
  \<^verbatim>\<open>
  const DEFAULT_OPTIONS = {
      key: value => value.uid,
      value: entry => entry,
      entry: (_id, data) => Object.assign({}, data, {_id})
  };
  constructor(collection, type = Object, indexes = new IndexMap(), options = DEFAULT_OPTIONS)
  \<close>
  The store keeps its four constructor arguments; of \<^verbatim>\<open>type\<close> it uses \<^verbatim>\<open>type.fromJSON\<close>
  only. Entities have type \<open>'x\<close>, keys \<open>'k\<close>. \<^verbatim>\<open>this.collection\<close> is taken as resolved.
\<close>

record ('k, 'v, 'x) options =
  key_of :: "'x \<Rightarrow> 'k"
  value_of :: "'v \<Rightarrow> 'v"
  entry_of :: "'k \<Rightarrow> 'x \<Rightarrow> 'v"

record ('k, 'v, 'x, 'c) Store =
  collection :: "('k, 'v, 'x, 'c) collection"
  fromJSON :: "'v \<Rightarrow> 'x"
  indexes :: "'v IndexMap"
  options :: "('k, 'v, 'x) options"

text \<open>
  The world the store acts on: the backing state of the collection, and the requests
  sent to the collection so far, oldest first.
\<close>

datatype ('k, 'v, 'x) request =
    FindOne 'k
  | Find "'v criteria"
  | UpdateOne 'k "'v update_arg" bool
  | Remove "'v criteria"
  | DeleteMany "'k list"
  | InsertMany "'x list"

record ('k, 'v, 'x, 'c) world =
  backing :: 'c
  sent :: "('k, 'v, 'x) request list"

definition call ::
  "('k, 'v, 'x) request \<Rightarrow> ('c \<Rightarrow> 'a reply \<times> 'c) \<Rightarrow> ('k, 'v, 'x, 'c) world
     \<Rightarrow> 'a reply \<times> ('k, 'v, 'x, 'c) world" where
  "call req method w =
     (case method (backing w) of
        (r, c) \<Rightarrow> (r, \<lparr>backing = c, sent = sent w @ [req]\<rparr>))"

text \<open>
  What the caller of a store method observes: the method throws before returning, or the
  promise it returns rejects, or the promise resolves with a value.
\<close>

datatype 'k reason =
    DoesNotExist 'k
  | Thrown exn
  | MongoError

datatype ('k, 'a) outcome =
    Throws exn
  | Rejects "'k reason"
  | Resolves 'a

section \<open>Single-entity and criteria operations\<close>

text \<open>
  \<^verbatim>\<open>
  find(_id) {
      return this.collection
          .then(collection => collection.findOne({_id}))
          .then(item => {
              if (item === null) throw new DoesNotExist(_id);
              return this.type.fromJSON(this.options.value(item));
          });
  }
  \<close>
\<close>

definition find_store ::
  "('k, 'v, 'x, 'c) Store \<Rightarrow> 'k \<Rightarrow> ('k, 'v, 'x, 'c) world
     \<Rightarrow> ('k, 'x) outcome \<times> ('k, 'v, 'x, 'c) world" where
  "find_store this the_id w =
     (case call (FindOne the_id) (findOne (collection this) the_id) w of
        (Failure, w') \<Rightarrow> (Rejects MongoError, w')
      | (Reply None, w') \<Rightarrow> (Rejects (DoesNotExist the_id), w')
      | (Reply (Some item), w') \<Rightarrow>
          (Resolves (fromJSON this (value_of (options this) item)), w'))"

text \<open>
  \<^verbatim>\<open>
  findAll(index, value)  {
      let mongo_criteria = this.indexes.toMongoCriteria(index,value);
      return this.collection
          .then(collection => collection.find(mongo_criteria).toArray())
          .then(items => items.map(item => this.type.fromJSON(this.options.value(item))));
  }
  removeAll(index, value) {
      return this.collection
          .then(collection => collection.remove(this.indexes.toMongoCriteria(index,value), {w: 1}));
  }
  \<close>
  \<^verbatim>\<open>findAll\<close> translates before it builds the promise, so a failed translation is thrown
  to the caller. \<^verbatim>\<open>removeAll\<close> translates inside the callback, while the arguments of
  \<^verbatim>\<open>collection.remove\<close> are evaluated: a failed translation rejects the promise and
  \<^verbatim>\<open>remove\<close> is not called.
\<close>

definition findAll ::
  "('k, 'v, 'x, 'c) Store \<Rightarrow> index \<Rightarrow> 'v \<Rightarrow> ('k, 'v, 'x, 'c) world
     \<Rightarrow> ('k, 'x list) outcome \<times> ('k, 'v, 'x, 'c) world" where
  "findAll this index value w =
     (case toMongoCriteria (indexes this) index value of
        Inl e \<Rightarrow> (Throws e, w)
      | Inr mongo_criteria \<Rightarrow>
          (case call (Find mongo_criteria) (find_toArray (collection this) mongo_criteria) w of
             (Failure, w') \<Rightarrow> (Rejects MongoError, w')
           | (Reply items, w') \<Rightarrow>
               (Resolves (map (\<lambda>item. fromJSON this (value_of (options this) item)) items), w')))"

text \<open>A write whose result the store passes on unchanged.\<close>

definition written ::
  "unit reply \<times> ('k, 'v, 'x, 'c) world \<Rightarrow> ('k, unit) outcome \<times> ('k, 'v, 'x, 'c) world" where
  "written rw =
     (case rw of
        (Failure, w') \<Rightarrow> (Rejects MongoError, w')
      | (Reply r, w') \<Rightarrow> (Resolves (), w'))"

definition removeAll_store ::
  "('k, 'v, 'x, 'c) Store \<Rightarrow> index \<Rightarrow> 'v \<Rightarrow> ('k, 'v, 'x, 'c) world
     \<Rightarrow> ('k, unit) outcome \<times> ('k, 'v, 'x, 'c) world" where
  "removeAll_store this index value w =
     (case toMongoCriteria (indexes this) index value of
        Inl e \<Rightarrow> (Rejects (Thrown e), w)
      | Inr criteria \<Rightarrow>
          written (call (Remove criteria) (remove_criteria (collection this) criteria) w))"

text \<open>
  \<^verbatim>\<open>
  update(object) {
      let _id = this.options.key(object);
      return this.collection
          .then(collection => collection.updateOne(
              { _id },
              this.options.entry(_id,object),
              {w : 1, upsert: true}));
  }
  \<close>
\<close>

definition update_store ::
  "('k, 'v, 'x, 'c) Store \<Rightarrow> 'x \<Rightarrow> ('k, 'v, 'x, 'c) world
     \<Rightarrow> ('k, unit) outcome \<times> ('k, 'v, 'x, 'c) world" where
  "update_store this object w =
     (let the_id = key_of (options this) object;
          document = Document (entry_of (options this) the_id object)
      in written (call (UpdateOne the_id document True)
                       (updateOne (collection this) the_id document True) w))"

section \<open>Bulk\<close>

text \<open>
  \<^verbatim>\<open>
  _updateFromDiff(_id, diff) {
      const mongoQuery = Store.diffToMongo(diff.data);
      return this.collection
          .then(collection => collection.updateOne({ _id }, mongoQuery, {w : 1}));
  }
  _bulkRemove(ids) {
      return this.collection
          .then(collection => collection.deleteMany({ _id: { $in: ids }}, {w : 1}));
  }
  _bulkInsert(items) {
      return this.collection
          .then(collection => collection.insertMany(items, {w : 1}));
  }
  \<close>
\<close>

definition underscore_updateFromDiff ::
  "('v patch \<Rightarrow> string) \<Rightarrow> ('k, 'v, 'x, 'c) Store \<Rightarrow> 'k \<Rightarrow> 'v patch \<Rightarrow> ('k, 'v, 'x, 'c) world
     \<Rightarrow> ('k, unit) outcome \<times> ('k, 'v, 'x, 'c) world" where
  "underscore_updateFromDiff toStr this the_id diff w =
     (case diffToMongo toStr (data_fields diff) of
        Inl e \<Rightarrow> (Throws e, w)
      | Inr mongoQuery \<Rightarrow>
          written (call (UpdateOne the_id (Instruction mongoQuery) False)
                        (updateOne (collection this) the_id (Instruction mongoQuery) False) w))"

definition underscore_bulkRemove ::
  "('k, 'v, 'x, 'c) Store \<Rightarrow> 'k list \<Rightarrow> ('k, 'v, 'x, 'c) world
     \<Rightarrow> ('k, unit) outcome \<times> ('k, 'v, 'x, 'c) world" where
  "underscore_bulkRemove this ids w =
     written (call (DeleteMany ids) (deleteMany (collection this) ids) w)"

definition underscore_bulkInsert ::
  "('k, 'v, 'x, 'c) Store \<Rightarrow> 'x list \<Rightarrow> ('k, 'v, 'x, 'c) world
     \<Rightarrow> ('k, unit) outcome \<times> ('k, 'v, 'x, 'c) world" where
  "underscore_bulkInsert this items w =
     written (call (InsertMany items) (insertMany (collection this) items) w)"

text \<open>
  The three closures \<^verbatim>\<open>bulk\<close> chains with \<^verbatim>\<open>then\<close>:
  \<^verbatim>\<open>() => this._updateFromDiff(key, op)\<close>, \<^verbatim>\<open>() => this._bulkInsert(inserts)\<close> and
  \<^verbatim>\<open>() => this._bulkRemove(deletes)\<close>.
\<close>

datatype ('k, 'v, 'x) callback =
    UpdateFromDiff 'k "'v patch"
  | BulkInsert "'x list"
  | BulkRemove "'k list"

fun invoke ::
  "('v patch \<Rightarrow> string) \<Rightarrow> ('k, 'v, 'x, 'c) Store \<Rightarrow> ('k, 'v, 'x) callback
     \<Rightarrow> ('k, 'v, 'x, 'c) world \<Rightarrow> ('k, unit) outcome \<times> ('k, 'v, 'x, 'c) world" where
  "invoke toStr this (UpdateFromDiff key op) w = underscore_updateFromDiff toStr this key op w"
| "invoke toStr this (BulkInsert inserts) w = underscore_bulkInsert this inserts w"
| "invoke toStr this (BulkRemove deletes) w = underscore_bulkRemove this deletes w"

text \<open>
  A chain \<^verbatim>\<open>Promise.resolve().then(f1).then(f2)...\<close> is the list of its callbacks. The
  callbacks run one after the other, each after the promise returned by the one before
  it has resolved. When a callback throws, or the promise it returns rejects, the chain
  rejects with that reason and the callbacks after it (chained with no rejection
  handler) are not called.
\<close>

fun settle ::
  "('v patch \<Rightarrow> string) \<Rightarrow> ('k, 'v, 'x, 'c) Store \<Rightarrow> ('k, 'v, 'x) callback list
     \<Rightarrow> ('k, 'v, 'x, 'c) world \<Rightarrow> ('k, unit) outcome \<times> ('k, 'v, 'x, 'c) world" where
  "settle toStr this [] w = (Resolves (), w)"
| "settle toStr this (f # fs) w =
     (case invoke toStr this f w of
        (Throws e, w') \<Rightarrow> (Rejects (Thrown e), w')
      | (Rejects r, w') \<Rightarrow> (Rejects r, w')
      | (Resolves u, w') \<Rightarrow> settle toStr this fs w')"

text \<open>
  \<^verbatim>\<open>
  bulk(patch) {
      let deletes = [];
      let inserts = [];
      let updates = Promise.resolve();
      for (let [key,op] of patch.data) {
          // TODO: Handle Rpl?
          if (op instanceof Operations.Mrg) {
              updates = updates.then( () => this._updateFromDiff(key, op) );
          } else if (op instanceof Operations.Ins) {
              inserts.push(this.type.fromJSON(op.data));
          } else if (op === Operations.DEL) {
              deletes.push(key);
          } else {
              throw new Error('Unkown diff operation ' + op);
          }
      }
      let operation = updates;
      if (inserts.length > 0) operation = operation.then( () => this._bulkInsert(inserts) );
      if (deletes.length > 0) operation = operation.then( () => this._bulkRemove(deletes) );
      return operation;
  }
  \<close>
  \<open>bulk_for_of\<close> is the loop. It returns the exception it stopped with, if any, and
  \<^verbatim>\<open>updates\<close>, \<^verbatim>\<open>inserts\<close> and \<^verbatim>\<open>deletes\<close> as they are at that point. The loop is
  synchronous and the callbacks of \<^verbatim>\<open>updates\<close> run in later jobs, after \<^verbatim>\<open>bulk\<close> has
  returned or thrown: a callback chained before the \<^verbatim>\<open>throw\<close> stays chained, and the world
  \<open>bulk\<close> returns is the one reached when the chain has settled.
\<close>

fun bulk_for_of ::
  "('v patch \<Rightarrow> string) \<Rightarrow> ('k, 'v, 'x, 'c) Store \<Rightarrow> ('k, 'v) batch
     \<Rightarrow> ('k, 'v, 'x) callback list \<Rightarrow> 'x list \<Rightarrow> 'k list
     \<Rightarrow> exn option \<times> ('k, 'v, 'x) callback list \<times> 'x list \<times> 'k list" where
  "bulk_for_of toStr this [] updates inserts deletes = (None, updates, inserts, deletes)"
| "bulk_for_of toStr this ((key, op) # rest) updates inserts deletes =
     (case op of
        Mrg fs \<Rightarrow>
          bulk_for_of toStr this rest (updates @ [UpdateFromDiff key op]) inserts deletes
      | Ins data \<Rightarrow>
          bulk_for_of toStr this rest updates (inserts @ [fromJSON this data]) deletes
      | DEL \<Rightarrow>
          bulk_for_of toStr this rest updates inserts (deletes @ [key])
      | Rpl data \<Rightarrow>
          (Some (Error (''Unkown diff operation '' @ toStr op)), updates, inserts, deletes))"

definition bulk ::
  "('v patch \<Rightarrow> string) \<Rightarrow> ('k, 'v, 'x, 'c) Store \<Rightarrow> ('k, 'v) batch \<Rightarrow> ('k, 'v, 'x, 'c) world
     \<Rightarrow> ('k, unit) outcome \<times> ('k, 'v, 'x, 'c) world" where
  "bulk toStr this patch w =
     (case bulk_for_of toStr this patch [] [] [] of
        (Some e, updates, inserts, deletes) \<Rightarrow> (Throws e, snd (settle toStr this updates w))
      | (None, updates, inserts, deletes) \<Rightarrow>
          (let operation = updates;
               operation = (if 0 < length inserts then operation @ [BulkInsert inserts]
                            else operation);
               operation = (if 0 < length deletes then operation @ [BulkRemove deletes]
                            else operation)
           in settle toStr this operation w))"

section \<open>The commands a batch asks for\<close>

text \<open>
  The order of commands as the specification words it, to compare \<open>bulk\<close> with: one
  partial update per \<^verbatim>\<open>Mrg\<close> entry in entry order, carrying the translation of the entry,
  then one bulk insert of the values of all \<^verbatim>\<open>Ins\<close> entries if there are any, then one
  bulk delete of the keys of all \<^verbatim>\<open>DEL\<close> entries if there are any. \<open>translates\<close> says that
  the translation of an entry does not raise.
\<close>

fun supported :: "'v patch \<Rightarrow> bool" where
  "supported (Mrg fs) = True"
| "supported (Ins data) = True"
| "supported DEL = True"
| "supported (Rpl data) = False"


fun is_Mrg :: "'v patch \<Rightarrow> bool" where
  "is_Mrg (Mrg fs) = True"
| "is_Mrg (Ins data) = False"
| "is_Mrg DEL = False"
| "is_Mrg (Rpl data) = False"

definition translates :: "('v patch \<Rightarrow> string) \<Rightarrow> 'v patch \<Rightarrow> bool" where
  "translates toStr op =
     (case diffToMongo toStr (data_fields op) of Inl e \<Rightarrow> False | Inr command \<Rightarrow> True)"

definition update_commands ::
  "('v patch \<Rightarrow> string) \<Rightarrow> ('k, 'v) batch \<Rightarrow> ('k, 'v, 'x) request list" where
  "update_commands toStr patch =
     map (\<lambda>entry. UpdateOne (fst entry)
                     (Instruction (projr (diffToMongo toStr (data_fields (snd entry))))) False)
         (filter (\<lambda>entry. is_Mrg (snd entry)) patch)"

fun insert_values :: "('k, 'v, 'x, 'c) Store \<Rightarrow> ('k, 'v) batch \<Rightarrow> 'x list" where
  "insert_values this [] = []"
| "insert_values this ((key, op) # rest) =
     (case op of
        Ins data \<Rightarrow> fromJSON this data # insert_values this rest
      | Mrg fs \<Rightarrow> insert_values this rest
      | DEL \<Rightarrow> insert_values this rest
      | Rpl data \<Rightarrow> insert_values this rest)"

fun delete_keys :: "('k, 'v) batch \<Rightarrow> 'k list" where
  "delete_keys [] = []"
| "delete_keys ((key, op) # rest) =
     (case op of
        DEL \<Rightarrow> key # delete_keys rest
      | Mrg fs \<Rightarrow> delete_keys rest
      | Ins data \<Rightarrow> delete_keys rest
      | Rpl data \<Rightarrow> delete_keys rest)"

definition bulk_commands ::
  "('v patch \<Rightarrow> string) \<Rightarrow> ('k, 'v, 'x, 'c) Store \<Rightarrow> ('k, 'v) batch \<Rightarrow> ('k, 'v, 'x) request list" where
  "bulk_commands toStr this patch =
     update_commands toStr patch
     @ (if insert_values this patch = [] then [] else [InsertMany (insert_values this patch)])
     @ (if delete_keys patch = [] then [] else [DeleteMany (delete_keys patch)])"

text \<open>
  The callbacks chained for the \<^verbatim>\<open>Mrg\<close> entries of a batch, the command each callback
  of a chain sends when its translation succeeds, and the backing state after a list of
  commands has been applied one after the other.
\<close>

fun update_callbacks :: "('k, 'v) batch \<Rightarrow> ('k, 'v, 'x) callback list" where
  "update_callbacks [] = []"
| "update_callbacks ((key, op) # rest) =
     (if is_Mrg op then UpdateFromDiff key op # update_callbacks rest
      else update_callbacks rest)"

fun callback_commands ::
  "('v patch \<Rightarrow> string) \<Rightarrow> ('k, 'v, 'x) callback list \<Rightarrow> ('k, 'v, 'x) request list" where
  "callback_commands toStr [] = []"
| "callback_commands toStr (UpdateFromDiff key op # fs) =
     (case diffToMongo toStr (data_fields op) of
        Inl e \<Rightarrow> []
      | Inr command \<Rightarrow> [UpdateOne key (Instruction command) False])
     @ callback_commands toStr fs"
| "callback_commands toStr (BulkInsert inserts # fs) =
     InsertMany inserts # callback_commands toStr fs"
| "callback_commands toStr (BulkRemove deletes # fs) =
     DeleteMany deletes # callback_commands toStr fs"

fun perform :: "('k, 'v, 'x, 'c) collection \<Rightarrow> ('k, 'v, 'x) request \<Rightarrow> 'c \<Rightarrow> 'c" where
  "perform coll (FindOne the_id) c = snd (findOne coll the_id c)"
| "perform coll (Find criteria) c = snd (find_toArray coll criteria c)"
| "perform coll (UpdateOne the_id arg upsert) c = snd (updateOne coll the_id arg upsert c)"
| "perform coll (Remove criteria) c = snd (remove_criteria coll criteria c)"
| "perform coll (DeleteMany ids) c = snd (deleteMany coll ids c)"
| "perform coll (InsertMany items) c = snd (insertMany coll items c)"

fun is_update :: "('k, 'v, 'x) request \<Rightarrow> bool" where
  "is_update (UpdateOne the_id arg upsert) = True"
| "is_update (FindOne the_id) = False"
| "is_update (Find criteria) = False"
| "is_update (Remove criteria) = False"
| "is_update (DeleteMany ids) = False"
| "is_update (InsertMany items) = False"

definition replay :: "('k, 'v, 'x, 'c) collection \<Rightarrow> ('k, 'v, 'x) request list \<Rightarrow> 'c \<Rightarrow> 'c" where
  "replay coll commands c = foldl (\<lambda>c command. perform coll command c) c commands"

text \<open>
  A request succeeds on a backing state when the collection does not answer it with a
  failure; a list of commands succeeds when each does on the state the ones before it
  have left.
\<close>

fun succeeds :: "('k, 'v, 'x, 'c) collection \<Rightarrow> ('k, 'v, 'x) request \<Rightarrow> 'c \<Rightarrow> bool" where
  "succeeds coll (FindOne the_id) c = (fst (findOne coll the_id c) \<noteq> Failure)"
| "succeeds coll (Find criteria) c = (fst (find_toArray coll criteria c) \<noteq> Failure)"
| "succeeds coll (UpdateOne the_id arg upsert) c = (fst (updateOne coll the_id arg upsert c) \<noteq> Failure)"
| "succeeds coll (Remove criteria) c = (fst (remove_criteria coll criteria c) \<noteq> Failure)"
| "succeeds coll (DeleteMany ids) c = (fst (deleteMany coll ids c) \<noteq> Failure)"
| "succeeds coll (InsertMany items) c = (fst (insertMany coll items c) \<noteq> Failure)"

fun all_succeed :: "('k, 'v, 'x, 'c) collection \<Rightarrow> ('k, 'v, 'x) request list \<Rightarrow> 'c \<Rightarrow> bool" where
  "all_succeed coll [] c = True"
| "all_succeed coll (command # commands) c =
     (succeeds coll command c \<and> all_succeed coll commands (perform coll command c))"

text \<open>The entries of a batch before its first \<^verbatim>\<open>Rpl\<close> entry.\<close>

definition before_Rpl :: "('k, 'v) batch \<Rightarrow> ('k, 'v) batch" where
  "before_Rpl patch = takeWhile (\<lambda>entry. supported (snd entry)) patch"

section \<open>A collection in memory\<close>

text \<open>
  A small collection to run the store on: plain data is JSON-like, a document is stored
  under its \<^verbatim>\<open>_id\<close>, in insertion order. \<^verbatim>\<open>updateOne\<close> with a document replaces the stored
  one (or inserts it under \<^verbatim>\<open>upsert\<close>), with an instruction it assigns and removes the
  named top-level properties of the stored document; a criteria object matches the
  documents that have each of its properties with the same value, and criteria that are
  not an object make the call fail; \<^verbatim>\<open>insertMany\<close> fails on
  a document without \<^verbatim>\<open>_id\<close> or with one already stored. \<^verbatim>\<open>updateOne\<close> on a key in \<open>down\<close> fails.
\<close>

datatype json =
    Null
  | Num nat
  | Str string
  | Obj "(string \<times> json) list"

fun field :: "string \<Rightarrow> json \<Rightarrow> json" where
  "field name (Obj fs) = (case map_of fs name of None \<Rightarrow> Null | Some v \<Rightarrow> v)"
| "field name Null = Null"
| "field name (Num n) = Null"
| "field name (Str s) = Null"

fun assign :: "json \<Rightarrow> (string \<times> json) list \<Rightarrow> json" where
  "assign (Obj fs) extra = Obj (foldl (\<lambda>acc (name, v). AList.update name v acc) fs extra)"
| "assign Null extra = Obj extra"
| "assign (Num n) extra = Obj extra"
| "assign (Str s) extra = Obj extra"

fun unassign :: "json \<Rightarrow> string list \<Rightarrow> json" where
  "unassign (Obj fs) names = Obj (foldl (\<lambda>acc name. AList.delete name acc) fs names)"
| "unassign Null names = Null"
| "unassign (Num n) names = Num n"
| "unassign (Str s) names = Str s"

definition modify :: "json mongo \<Rightarrow> json \<Rightarrow> json" where
  "modify instruction document =
     unassign
       (assign document (case dollar_set instruction of None \<Rightarrow> [] | Some s \<Rightarrow> s))
       (case dollar_unset instruction of None \<Rightarrow> [] | Some u \<Rightarrow> map fst u)"

fun criteria_fields :: "json criteria \<Rightarrow> (string \<times> json) list option" where
  "criteria_fields (Fields fs) = Some fs"
| "criteria_fields (Object_of (Obj fs)) = Some fs"
| "criteria_fields (Object_of Null) = Some []"
| "criteria_fields (Object_of (Num n)) = None"
| "criteria_fields (Object_of (Str s)) = None"
| "criteria_fields (Text s) = None"
| "criteria_fields (Boolean b) = None"
| "criteria_fields Undefined = None"

definition matches :: "(string \<times> json) list \<Rightarrow> json \<Rightarrow> bool" where
  "matches fs document = list_all (\<lambda>(name, v). field name document = v) fs"

fun insert_all :: "json list \<Rightarrow> (json \<times> json) list \<Rightarrow> (json \<times> json) list option" where
  "insert_all [] c = Some c"
| "insert_all (item # items) c =
     (if field ''_id'' item = Null \<or> map_of c (field ''_id'' item) \<noteq> None then None
      else insert_all items (c @ [(field ''_id'' item, item)]))"

definition memory_collection ::
  "json list \<Rightarrow> (json, json, json, (json \<times> json) list) collection" where
  "memory_collection down =
     \<lparr>findOne = (\<lambda>the_id c. (Reply (map_of c the_id), c)),
      find_toArray = (\<lambda>criteria c.
        case criteria_fields criteria of
          None \<Rightarrow> (Failure, c)
        | Some fs \<Rightarrow> (Reply (filter (matches fs) (map snd c)), c)),
      updateOne = (\<lambda>the_id arg upsert c.
        if the_id \<in> set down then (Failure, c)
        else (case arg of
                Document d \<Rightarrow>
                  (Reply (), if upsert \<or> map_of c the_id \<noteq> None then AList.update the_id d c else c)
              | Instruction i \<Rightarrow>
                  (Reply (), case map_of c the_id of
                               None \<Rightarrow> c
                             | Some d \<Rightarrow> AList.update the_id (modify i d) c))),
      remove_criteria = (\<lambda>criteria c.
        case criteria_fields criteria of
          None \<Rightarrow> (Failure, c)
        | Some fs \<Rightarrow> (Reply (), filter (\<lambda>(the_id, d). \<not> matches fs d) c)),
      deleteMany = (\<lambda>ids c. (Reply (), filter (\<lambda>(the_id, d). the_id \<notin> set ids) c)),
      insertMany = (\<lambda>items c.
        case insert_all items c of None \<Rightarrow> (Failure, c) | Some c' \<Rightarrow> (Reply (), c'))\<rparr>"

text \<open>
  The store of the repository's tests, on this collection: the default options (the key
  of an entity is its \<^verbatim>\<open>uid\<close>, the entry is the entity with \<^verbatim>\<open>_id\<close> assigned), entities
  built from the JSON as it is, and the index \<^verbatim>\<open>byA\<close> registered for the field \<^verbatim>\<open>a\<close>. The
  index \<^verbatim>\<open>byB\<close> is not registered, nor is the index named \<^verbatim>\<open>constructor\<close>.
\<close>

definition byA :: index where
  "byA = \<lparr>index_name = ''byA''\<rparr>"

definition byB :: index where
  "byB = \<lparr>index_name = ''byB''\<rparr>"

definition named_constructor :: index where
  "named_constructor = \<lparr>index_name = ''constructor''\<rparr>"

definition memory_store ::
  "(string \<Rightarrow> json \<Rightarrow> exn + json criteria) \<Rightarrow> json list
     \<Rightarrow> (json, json, json, (json \<times> json) list) Store" where
  "memory_store builtin down =
     \<lparr>collection = memory_collection down,
      fromJSON = (\<lambda>data. data),
      indexes = addSimpleField (new_IndexMap builtin) byA ''a'',
      options = \<lparr>key_of = field ''uid'',
                 value_of = (\<lambda>entry. entry),
                 entry_of = (\<lambda>the_id data. assign data [(''_id'', the_id)])\<rparr>\<rparr>"

definition Simple :: "nat \<Rightarrow> string \<Rightarrow> string \<Rightarrow> json" where
  "Simple uid a b = Obj [(''uid'', Num uid), (''a'', Str a), (''b'', Str b)]"

definition stored :: "nat \<Rightarrow> string \<Rightarrow> string \<Rightarrow> json \<times> json" where
  "stored uid a b = (Num uid, assign (Simple uid a b) [(''_id'', Num uid)])"

definition world0 :: "(json \<times> json) list \<Rightarrow> (json, json, json, (json \<times> json) list) world" where
  "world0 c = \<lparr>backing = c, sent = []\<rparr>"

section \<open>Lemmas on promise chains\<close>

lemma callback_commands_Cons:
  "callback_commands toStr (f # fs) = callback_commands toStr [f] @ callback_commands toStr fs"
  by (cases f) simp_all

lemma callback_commands_append:
  "callback_commands toStr (fs @ gs) = callback_commands toStr fs @ callback_commands toStr gs"
proof (induction fs)
  case Nil
  show ?case by simp
next
  case (Cons f fs)
  then show ?case
    by (simp add: callback_commands_Cons [of toStr f "fs @ gs"] callback_commands_Cons [of toStr f fs])
qed

lemma written_cases:
  "written (call req method w) =
     (case fst (method (backing w)) of Failure \<Rightarrow> Rejects MongoError | Reply r \<Rightarrow> Resolves (),
      \<lparr>backing = snd (method (backing w)), sent = sent w @ [req]\<rparr>)"
  by (simp add: written_def call_def split: prod.splits reply.splits)

lemma invoke_step:
  "(\<exists>e. invoke toStr this f w = (Throws e, w) \<and> callback_commands toStr [f] = [])
   \<or> (\<exists>req. callback_commands toStr [f] = [req]
          \<and> snd (invoke toStr this f w)
              = \<lparr>backing = perform (collection this) req (backing w), sent = sent w @ [req]\<rparr>
          \<and> fst (invoke toStr this f w) \<in> {Resolves (), Rejects MongoError}
          \<and> (succeeds (collection this) req (backing w) \<longrightarrow> fst (invoke toStr this f w) = Resolves ()))"
proof (cases f)
  case (UpdateFromDiff key op)
  show ?thesis
  proof (cases "diffToMongo toStr (data_fields op)")
    case (Inl e)
    with UpdateFromDiff show ?thesis by (simp add: underscore_updateFromDiff_def)
  next
    case (Inr command)
    with UpdateFromDiff show ?thesis
      by (simp add: underscore_updateFromDiff_def written_cases split: reply.splits)
  qed
next
  case (BulkInsert inserts)
  then show ?thesis by (simp add: underscore_bulkInsert_def written_cases split: reply.splits)
next
  case (BulkRemove deletes)
  then show ?thesis by (simp add: underscore_bulkRemove_def written_cases split: reply.splits)
qed

lemma settle_prefix:
  "\<exists>n. snd (settle toStr this fs w)
         = \<lparr>backing = replay (collection this) (take n (callback_commands toStr fs)) (backing w),
            sent = sent w @ take n (callback_commands toStr fs)\<rparr>"
proof (induction fs arbitrary: w)
  case Nil
  show ?case by (simp add: replay_def)
next
  case (Cons f fs)
  from invoke_step [of toStr this f w] show ?case
  proof (elim disjE exE conjE)
    fix e
    assume "invoke toStr this f w = (Throws e, w)"
    then have "snd (settle toStr this (f # fs) w) = w" by simp
    then have "snd (settle toStr this (f # fs) w)
         = \<lparr>backing = replay (collection this) (take 0 (callback_commands toStr (f # fs))) (backing w),
            sent = sent w @ take 0 (callback_commands toStr (f # fs))\<rparr>"
      by (simp add: replay_def)
    then show ?thesis by blast
  next
    fix req
    assume one: "callback_commands toStr [f] = [req]"
      and w': "snd (invoke toStr this f w)
              = \<lparr>backing = perform (collection this) req (backing w), sent = sent w @ [req]\<rparr>"
      and "fst (invoke toStr this f w) \<in> {Resolves (), Rejects MongoError}"
    then have out: "fst (invoke toStr this f w) = Resolves ()
               \<or> fst (invoke toStr this f w) = Rejects MongoError"
      by simp
    have cmds: "callback_commands toStr (f # fs) = req # callback_commands toStr fs"
      using callback_commands_Cons [of toStr f fs] one by simp
    from out show ?thesis
    proof
      assume "fst (invoke toStr this f w) = Resolves ()"
      then have go: "settle toStr this (f # fs) w = settle toStr this fs (snd (invoke toStr this f w))"
        by (cases "invoke toStr this f w") simp
      from Cons.IH [of "snd (invoke toStr this f w)"] obtain n where
        "snd (settle toStr this fs (snd (invoke toStr this f w)))
          = \<lparr>backing = replay (collection this) (take n (callback_commands toStr fs))
                         (backing (snd (invoke toStr this f w))),
             sent = sent (snd (invoke toStr this f w)) @ take n (callback_commands toStr fs)\<rparr>"
        by blast
      then have "snd (settle toStr this (f # fs) w)
         = \<lparr>backing = replay (collection this) (take (Suc n) (callback_commands toStr (f # fs))) (backing w),
            sent = sent w @ take (Suc n) (callback_commands toStr (f # fs))\<rparr>"
        unfolding go by (simp add: w' cmds replay_def)
      then show ?thesis by blast
    next
      assume "fst (invoke toStr this f w) = Rejects MongoError"
      then have "snd (settle toStr this (f # fs) w) = snd (invoke toStr this f w)"
        by (cases "invoke toStr this f w") simp
      then have "snd (settle toStr this (f # fs) w)
         = \<lparr>backing = replay (collection this) (take (Suc 0) (callback_commands toStr (f # fs))) (backing w),
            sent = sent w @ take (Suc 0) (callback_commands toStr (f # fs))\<rparr>"
        by (simp add: w' cmds replay_def)
      then show ?thesis by blast
    qed
  qed
qed

lemma settle_resolved:
  "fst (settle toStr this fs w) = Resolves () \<Longrightarrow>
     snd (settle toStr this fs w)
       = \<lparr>backing = replay (collection this) (callback_commands toStr fs) (backing w),
          sent = sent w @ callback_commands toStr fs\<rparr>
     \<and> length (callback_commands toStr fs) = length fs"
proof (induction fs arbitrary: w)
  case Nil
  show ?case by (simp add: replay_def)
next
  case (Cons f fs)
  from invoke_step [of toStr this f w] show ?case
  proof (elim disjE exE conjE)
    fix e
    assume "invoke toStr this f w = (Throws e, w)"
    with Cons.prems show ?thesis by simp
  next
    fix req
    assume one: "callback_commands toStr [f] = [req]"
      and w': "snd (invoke toStr this f w)
              = \<lparr>backing = perform (collection this) req (backing w), sent = sent w @ [req]\<rparr>"
      and "fst (invoke toStr this f w) \<in> {Resolves (), Rejects MongoError}"
    then have out: "fst (invoke toStr this f w) = Resolves ()
               \<or> fst (invoke toStr this f w) = Rejects MongoError"
      by simp
    have cmds: "callback_commands toStr (f # fs) = req # callback_commands toStr fs"
      using callback_commands_Cons [of toStr f fs] one by simp
    from out show ?thesis
    proof
      assume "fst (invoke toStr this f w) = Resolves ()"
      then have go: "settle toStr this (f # fs) w = settle toStr this fs (snd (invoke toStr this f w))"
        by (cases "invoke toStr this f w") simp
      with Cons.prems have "fst (settle toStr this fs (snd (invoke toStr this f w))) = Resolves ()"
        by simp
      from Cons.IH [OF this] show ?thesis
        unfolding go by (simp add: w' cmds replay_def)
    next
      assume "fst (invoke toStr this f w) = Rejects MongoError"
      then have "fst (settle toStr this (f # fs) w) = Rejects MongoError"
        by (cases "invoke toStr this f w") simp
      with Cons.prems show ?thesis by simp
    qed
  qed
qed

lemma settle_append:
  "settle toStr this (fs @ gs) w =
     (case settle toStr this fs w of
        (Resolves u, w') \<Rightarrow> settle toStr this gs w'
      | (Rejects r, w') \<Rightarrow> (Rejects r, w')
      | (Throws e, w') \<Rightarrow> (Throws e, w'))"
  by (induction fs arbitrary: w) (auto split: prod.splits outcome.splits)

lemma settle_update_fails:
  assumes earlier_ok: "settle toStr this earlier w = (Resolves (), w1)"
    and command: "diffToMongo toStr (data_fields op) = Inr command"
    and fails: "updateOne (collection this) key (Instruction command) False (backing w1) = (Failure, c2)"
  shows "settle toStr this (earlier @ UpdateFromDiff key op # later) w
     = (Rejects MongoError,
        \<lparr>backing = c2, sent = sent w1 @ [UpdateOne key (Instruction command) False]\<rparr>)"
  using assms
  by (simp add: settle_append underscore_updateFromDiff_def written_def call_def)

lemma length_callback_commands: "length (callback_commands toStr fs) \<le> length fs"
proof (induction fs)
  case Nil
  show ?case by simp
next
  case (Cons f fs)
  then show ?case by (cases f) (simp_all split: sum.splits)
qed

lemma settle_all_succeed:
  "length (callback_commands toStr fs) = length fs \<Longrightarrow>
   all_succeed (collection this) (callback_commands toStr fs) (backing w) \<Longrightarrow>
   settle toStr this fs w
     = (Resolves (),
        \<lparr>backing = replay (collection this) (callback_commands toStr fs) (backing w),
         sent = sent w @ callback_commands toStr fs\<rparr>)"
proof (induction fs arbitrary: w)
  case Nil
  show ?case by (simp add: replay_def)
next
  case (Cons f fs)
  have split: "callback_commands toStr (f # fs) = callback_commands toStr [f] @ callback_commands toStr fs"
    by (rule callback_commands_Cons)
  have le1: "length (callback_commands toStr [f]) \<le> 1"
    using length_callback_commands [of toStr "[f]"] by simp
  have le2: "length (callback_commands toStr fs) \<le> length fs"
    by (rule length_callback_commands)
  from Cons.prems(1) le1 le2 have len1: "length (callback_commands toStr [f]) = 1"
    and len2: "length (callback_commands toStr fs) = length fs"
    unfolding split by simp_all
  from invoke_step [of toStr this f w] show ?case
  proof (elim disjE exE conjE)
    fix e
    assume "callback_commands toStr [f] = []"
    with len1 show ?thesis by simp
  next
    fix req
    assume one: "callback_commands toStr [f] = [req]"
      and w': "snd (invoke toStr this f w)
              = \<lparr>backing = perform (collection this) req (backing w), sent = sent w @ [req]\<rparr>"
      and ok: "succeeds (collection this) req (backing w) \<longrightarrow> fst (invoke toStr this f w) = Resolves ()"
    have cmds: "callback_commands toStr (f # fs) = req # callback_commands toStr fs"
      using split one by simp
    from Cons.prems(2) have first: "succeeds (collection this) req (backing w)"
      and rest: "all_succeed (collection this) (callback_commands toStr fs)
                   (perform (collection this) req (backing w))"
      unfolding cmds by simp_all
    from ok first have "fst (invoke toStr this f w) = Resolves ()" by simp
    then have go: "settle toStr this (f # fs) w = settle toStr this fs (snd (invoke toStr this f w))"
      by (cases "invoke toStr this f w") simp
    from rest have rest': "all_succeed (collection this) (callback_commands toStr fs)
                   (backing (snd (invoke toStr this f w)))"
      by (simp add: w')
    from Cons.IH [OF len2 rest'] show ?thesis
      unfolding go by (simp add: w' cmds replay_def)
  qed
qed

section \<open>Lemmas on the loop of bulk\<close>

lemma bulk_for_of_supported:
  "list_all (\<lambda>entry. supported (snd entry)) patch \<Longrightarrow>
   bulk_for_of toStr this patch updates inserts deletes
     = (None, updates @ update_callbacks patch, inserts @ insert_values this patch,
        deletes @ delete_keys patch)"
proof (induction patch arbitrary: updates inserts deletes)
  case Nil
  show ?case by simp
next
  case (Cons a patch)
  obtain key op where a: "a = (key, op)" by (cases a)
  with Cons show ?case by (cases op) simp_all
qed

lemma bulk_for_of_Rpl:
  "\<not> list_all (\<lambda>entry. supported (snd entry)) patch \<Longrightarrow>
   \<exists>key data. (key, Rpl data) \<in> set patch
     \<and> bulk_for_of toStr this patch updates inserts deletes
         = (Some (Error (''Unkown diff operation '' @ toStr (Rpl data))),
            updates @ update_callbacks (before_Rpl patch),
            inserts @ insert_values this (before_Rpl patch),
            deletes @ delete_keys (before_Rpl patch))"
proof (induction patch arbitrary: updates inserts deletes)
  case Nil
  then show ?case by simp
next
  case (Cons a patch)
  obtain key op where a: "a = (key, op)" by (cases a)
  show ?case
  proof (cases op)
    case (Rpl data)
    have "bulk_for_of toStr this (a # patch) updates inserts deletes
         = (Some (Error (''Unkown diff operation '' @ toStr (Rpl data))),
            updates @ update_callbacks (before_Rpl (a # patch)),
            inserts @ insert_values this (before_Rpl (a # patch)),
            deletes @ delete_keys (before_Rpl (a # patch)))"
      using a Rpl by (simp add: before_Rpl_def)
    moreover have "(key, Rpl data) \<in> set (a # patch)" using a Rpl by simp
    ultimately show ?thesis by blast
  next
    case (Ins data)
    with Cons.prems a have "\<not> list_all (\<lambda>entry. supported (snd entry)) patch" by simp
    from Cons.IH [OF this, of updates "inserts @ [fromJSON this data]" deletes]
    show ?thesis using a Ins by (simp add: before_Rpl_def)
  next
    case DEL
    with Cons.prems a have "\<not> list_all (\<lambda>entry. supported (snd entry)) patch" by simp
    from Cons.IH [OF this, of updates inserts "deletes @ [key]"]
    show ?thesis using a DEL by (simp add: before_Rpl_def)
  next
    case (Mrg fs)
    with Cons.prems a have "\<not> list_all (\<lambda>entry. supported (snd entry)) patch" by simp
    from Cons.IH [OF this, of "updates @ [UpdateFromDiff key op]" inserts deletes]
    show ?thesis using a Mrg by (simp add: before_Rpl_def)
  qed
qed

lemma callback_commands_update_callbacks:
  "list_all (\<lambda>entry. translates toStr (snd entry)) patch \<Longrightarrow>
   callback_commands toStr (update_callbacks patch) = update_commands toStr patch"
proof (induction patch)
  case Nil
  show ?case by (simp add: update_commands_def)
next
  case (Cons a patch)
  obtain key op where a: "a = (key, op)" by (cases a)
  from Cons.prems have tl: "list_all (\<lambda>entry. translates toStr (snd entry)) patch"
    by simp
  note rest = Cons.IH [OF tl]
  show ?case
  proof (cases "is_Mrg op")
    case False
    with a rest show ?thesis by (simp add: update_commands_def)
  next
    case True
    from Cons.prems a obtain command where "diffToMongo toStr (data_fields op) = Inr command"
      by (cases "diffToMongo toStr (data_fields op)") (simp_all add: translates_def)
    with a True rest show ?thesis by (simp add: update_commands_def)
  qed
qed

lemma length_update_callbacks:
  "length (update_callbacks patch) = length (filter (\<lambda>entry. is_Mrg (snd entry)) patch)"
proof (induction patch)
  case Nil
  show ?case by simp
next
  case (Cons a patch)
  obtain key op where a: "a = (key, op)" by (cases a)
  with Cons show ?case by (cases op) simp_all
qed

lemma list_all_is_update_callbacks:
  "list_all is_update (callback_commands toStr (update_callbacks patch))"
proof (induction patch)
  case Nil
  show ?case by simp
next
  case (Cons a patch)
  obtain key op where a: "a = (key, op)" by (cases a)
  with Cons show ?case by (simp split: sum.splits)
qed

lemma length_update_commands:
  "length (update_commands toStr patch) = length (filter (\<lambda>entry. is_Mrg (snd entry)) patch)"
  by (simp add: update_commands_def)

lemma bulk_supported:
  assumes "list_all (\<lambda>entry. supported (snd entry)) patch"
  shows "bulk toStr this patch w
     = settle toStr this
         (update_callbacks patch
          @ (if insert_values this patch = [] then [] else [BulkInsert (insert_values this patch)])
          @ (if delete_keys patch = [] then [] else [BulkRemove (delete_keys patch)])) w"
  using bulk_for_of_supported [OF assms, of toStr this "[]" "[]" "[]"]
  by (simp add: bulk_def Let_def)

lemma callback_commands_bulk:
  "list_all (\<lambda>entry. translates toStr (snd entry)) patch \<Longrightarrow>
   callback_commands toStr
         (update_callbacks patch
          @ (if insert_values this patch = [] then [] else [BulkInsert (insert_values this patch)])
          @ (if delete_keys patch = [] then [] else [BulkRemove (delete_keys patch)]))
     = bulk_commands toStr this patch"
  by (simp add: callback_commands_append callback_commands_update_callbacks bulk_commands_def)

lemma settle_resolved_prefix:
  assumes "fst (settle toStr this (fs @ gs) w) = Resolves ()"
  shows "fst (settle toStr this fs w) = Resolves ()"
  using assms unfolding settle_append
  by (cases "settle toStr this fs w"; cases "fst (settle toStr this fs w)") auto

lemma update_callbacks_no_Mrg:
  "list_all (\<lambda>entry. \<not> is_Mrg (snd entry)) patch \<Longrightarrow> update_callbacks patch = []"
proof (induction patch)
  case Nil
  show ?case by simp
next
  case (Cons a patch)
  obtain key op where a: "a = (key, op)" by (cases a)
  with Cons show ?case by simp
qed


section \<open>The diff translator: groups and nested merges\<close>




text \<open>
  C1: a nested \<^verbatim>\<open>Mrg\<close> is not flattened. The diff \<^verbatim>\<open>{f: Mrg({g: Rpl(v)})}\<close> should give the
  command that sets the path \<^verbatim>\<open>f.g\<close> to \<open>v\<close>. The code looks up \<^verbatim>\<open>diff[property]\<close>, the
  operation printed as a string: when that string is not \<^verbatim>\<open>f\<close>, no such property exists and
  reading its \<^verbatim>\<open>data\<close> raises a \<^verbatim>\<open>TypeError\<close>; when it is \<^verbatim>\<open>f\<close>, the inner diff is translated
  into a fresh command that is thrown away, and the result has no group at all. In
  neither case is \<^verbatim>\<open>f.g\<close> set.
\<close>

theorem diffToMongo_nested_Mrg:
  "diffToMongo toStr [(''f'', Mrg [(''g'', Rpl v)])]
     = (if toStr (Mrg [(''g'', Rpl v)]) = ''f''
        then Inr \<lparr>dollar_set = None, dollar_unset = None\<rparr>
        else Inl TypeError)"
  by simp

section \<open>The index map and the single-entity operations\<close>


text \<open>
  C6: an index whose name is not registered should make \<^verbatim>\<open>findAll\<close> and \<^verbatim>\<open>removeAll\<close> fail
  before the collection is called. For the unregistered index named \<^verbatim>\<open>constructor\<close>,
  \<^verbatim>\<open>this.maps[index.name]\<close> is the inherited \<^verbatim>\<open>Object\<close>, not \<^verbatim>\<open>undefined\<close>: nothing is raised,
  \<^verbatim>\<open>map(value)\<close> is \<^verbatim>\<open>Object(value)\<close>, and the collection is called with it.
  \<^verbatim>\<open>findAll(constructor, {a: 'hello'})\<close> resolves with the documents that match, and
  \<^verbatim>\<open>removeAll(constructor, {})\<close> removes every document.
\<close>

theorem inherited_index_reaches_collection:
  "findAll (memory_store builtin []) named_constructor (Obj [(''a'', Str ''hello'')])
       (world0 [stored 1 ''hello'' ''world'', stored 3 ''goodbye'' ''Mr. Chips''])
     = (Resolves [snd (stored 1 ''hello'' ''world'')],
        \<lparr>backing = [stored 1 ''hello'' ''world'', stored 3 ''goodbye'' ''Mr. Chips''],
         sent = [Find (Object_of (Obj [(''a'', Str ''hello'')]))]\<rparr>)
   \<and> removeAll_store (memory_store builtin []) named_constructor (Obj [])
       (world0 [stored 1 ''hello'' ''world'', stored 3 ''goodbye'' ''Mr. Chips''])
     = (Resolves (), \<lparr>backing = [], sent = [Remove (Object_of (Obj []))]\<rparr>)"
  by (simp add: findAll_def removeAll_store_def toMongoCriteria_def memory_store_def
      memory_collection_def addSimpleField_def new_IndexMap_def Object_prototype_def
      named_constructor_def byA_def call_def written_def world0_def stored_def Simple_def
      matches_def)

text \<open>
  What holds of the names that are neither registered nor inherited from
  \<^verbatim>\<open>Object.prototype\<close>: \<^verbatim>\<open>toMongoCriteria\<close> raises the error "mongo does not understand
  index"; \<^verbatim>\<open>findAll\<close> throws it and \<^verbatim>\<open>removeAll\<close> rejects with it, and both leave the world
  as it is: no request was sent to the collection and the backing state is unchanged.
  \<^verbatim>\<open>toMongoCriteria\<close> takes no world, so it has no effect on it.
\<close>

theorem unregistered_index_fails:
  assumes "maps (indexes this) (index_name index) = None"
    and "prototype (indexes this) (index_name index) = None"
  shows "toMongoCriteria (indexes this) index value
           = Inl (Error (''mongo does not understand index '' @ index_name index))
       \<and> findAll this index value w
           = (Throws (Error (''mongo does not understand index '' @ index_name index)), w)
       \<and> removeAll_store this index value w
           = (Rejects (Thrown (Error (''mongo does not understand index '' @ index_name index))), w)"
  using assms by (simp add: toMongoCriteria_def findAll_def removeAll_store_def)

text \<open>The index \<^verbatim>\<open>byB\<close> is neither registered in the store in memory nor inherited.\<close>

theorem unregistered_index_fails_witness:
  "\<forall>builtin.
     maps (indexes (memory_store builtin [])) (index_name byB) = None
   \<and> prototype (indexes (memory_store builtin [])) (index_name byB) = None
   \<and> findAll (memory_store builtin []) byB (Str ''hello'') (world0 [stored 1 ''hello'' ''world''])
       = (Throws (Error ''mongo does not understand index byB''), world0 [stored 1 ''hello'' ''world''])
   \<and> removeAll_store (memory_store builtin []) byB (Str ''hello'') (world0 [stored 1 ''hello'' ''world''])
       = (Rejects (Thrown (Error ''mongo does not understand index byB'')), world0 [stored 1 ''hello'' ''world''])"
proof
  fix builtin :: "string \<Rightarrow> json \<Rightarrow> exn + json criteria"
  have own: "maps (indexes (memory_store builtin [])) (index_name byB) = None"
    by (simp add: memory_store_def addSimpleField_def new_IndexMap_def byA_def byB_def)
  have inherited: "prototype (indexes (memory_store builtin [])) (index_name byB) = None"
    by (simp add: memory_store_def addSimpleField_def new_IndexMap_def byB_def
        Object_prototype_def Object_prototype_names_def)
  show "maps (indexes (memory_store builtin [])) (index_name byB) = None
   \<and> prototype (indexes (memory_store builtin [])) (index_name byB) = None
   \<and> findAll (memory_store builtin []) byB (Str ''hello'') (world0 [stored 1 ''hello'' ''world''])
       = (Throws (Error ''mongo does not understand index byB''), world0 [stored 1 ''hello'' ''world''])
   \<and> removeAll_store (memory_store builtin []) byB (Str ''hello'') (world0 [stored 1 ''hello'' ''world''])
       = (Rejects (Thrown (Error ''mongo does not understand index byB'')), world0 [stored 1 ''hello'' ''world''])"
    using own inherited
      unregistered_index_fails [OF own inherited, of "Str ''hello''" "world0 [stored 1 ''hello'' ''world'']"]
    by (simp add: byB_def)
qed

text \<open>
  C9: when the collection answers \<^verbatim>\<open>findOne({_id})\<close> with \<^verbatim>\<open>null\<close> (it holds no document
  for the key), \<^verbatim>\<open>find\<close> rejects with \<^verbatim>\<open>DoesNotExist\<close> for that key; when it answers with
  a document, \<^verbatim>\<open>find\<close> resolves with the entity built from that document.
\<close>

theorem find_store_DoesNotExist:
  assumes "fst (findOne (collection this) the_id (backing w)) = Reply held"
  shows "fst (find_store this the_id w)
           = (case held of
                None \<Rightarrow> Rejects (DoesNotExist the_id)
              | Some item \<Rightarrow> Resolves (fromJSON this (value_of (options this) item)))"
  using assms by (auto simp: find_store_def call_def split: prod.splits option.splits reply.splits)

text \<open>The collection holds key 1 only: \<^verbatim>\<open>find(2)\<close> rejects, \<^verbatim>\<open>find(1)\<close> resolves.\<close>

theorem find_store_DoesNotExist_witness:
  "\<forall>builtin.
   fst (find_store (memory_store builtin []) (Num 2) (world0 [stored 1 ''hello'' ''world'']))
     = Rejects (DoesNotExist (Num 2))
   \<and> fst (find_store (memory_store builtin []) (Num 1) (world0 [stored 1 ''hello'' ''world'']))
     = Resolves (snd (stored 1 ''hello'' ''world''))"
  (is "\<forall>builtin. ?P builtin")
proof (intro allI)
  fix builtin :: "string \<Rightarrow> json \<Rightarrow> exn + json criteria"
  have h2: "fst (findOne (collection (memory_store builtin [])) (Num 2) (backing (world0 [stored 1 ''hello'' ''world''])))
              = Reply None"
    by (simp add: memory_store_def memory_collection_def world0_def stored_def)
  have h1: "fst (findOne (collection (memory_store builtin [])) (Num 1) (backing (world0 [stored 1 ''hello'' ''world''])))
              = Reply (Some (snd (stored 1 ''hello'' ''world'')))"
    by (simp add: memory_store_def memory_collection_def world0_def stored_def)
  show "?P builtin"
    using find_store_DoesNotExist [OF h2] find_store_DoesNotExist [OF h1]
    by (simp add: memory_store_def)
qed

text \<open>
  C7: \<^verbatim>\<open>update\<close> is idempotent. The collection is one that keeps a document per key
  (\<open>docs\<close> reads the documents out of its backing state): \<^verbatim>\<open>findOne\<close> answers with the
  document of the key, and \<^verbatim>\<open>updateOne\<close> with a document and \<^verbatim>\<open>upsert\<close> succeeds and
  stores the document under the key. Then the documents after \<^verbatim>\<open>update(e)\<close> twice are
  the documents after \<^verbatim>\<open>update(e)\<close> once, and \<^verbatim>\<open>find\<close> of the key of \<open>e\<close> gives the same
  result in both, the entity built from the entry of \<open>e\<close>.
\<close>

theorem update_store_idempotent:
  fixes docs :: "'c \<Rightarrow> 'k \<rightharpoonup> 'v"
  assumes lookup: "\<forall>k c. fst (findOne (collection this) k c) = Reply (docs c k)"
    and upsert: "\<forall>k d c. fst (updateOne (collection this) k (Document d) True c) = Reply ()
                   \<and> docs (snd (updateOne (collection this) k (Document d) True c)) = (docs c)(k \<mapsto> d)"
  shows "docs (backing (snd (update_store this e (snd (update_store this e w)))))
           = docs (backing (snd (update_store this e w)))
       \<and> fst (find_store this (key_of (options this) e) (snd (update_store this e (snd (update_store this e w)))))
           = fst (find_store this (key_of (options this) e) (snd (update_store this e w)))
       \<and> fst (find_store this (key_of (options this) e) (snd (update_store this e w)))
           = Resolves (fromJSON this (value_of (options this)
                          (entry_of (options this) (key_of (options this) e) e)))"
proof -
  define k where "k = key_of (options this) e"
  define d where "d = entry_of (options this) k e"
  have step: "fst (update_store this e v) = Resolves ()
      \<and> docs (backing (snd (update_store this e v))) = (docs (backing v))(k \<mapsto> d)" for v
    using upsert [rule_format, of k d "backing v"]
    by (auto simp: update_store_def written_def call_def Let_def k_def d_def
             split: prod.splits reply.splits)
  have found: "fst (find_store this k v) = (case docs (backing v) k of
        None \<Rightarrow> Rejects (DoesNotExist k)
      | Some item \<Rightarrow> Resolves (fromJSON this (value_of (options this) item)))" for v
    using lookup [rule_format, of k "backing v"]
    by (auto simp: find_store_def call_def split: prod.splits option.splits reply.splits)
  show ?thesis
    unfolding k_def [symmetric] d_def [symmetric]
    by (simp add: step found)
qed

text \<open>The collection in memory is such a collection, with \<^const>\<open>map_of\<close> for \<open>docs\<close>.\<close>

theorem update_store_idempotent_witness:
  "\<forall>builtin.
   map_of (backing (snd (update_store (memory_store builtin []) (Simple 1 ''hello'' ''world'')
       (snd (update_store (memory_store builtin []) (Simple 1 ''hello'' ''world'') (world0 []))))))
     = map_of (backing (snd (update_store (memory_store builtin []) (Simple 1 ''hello'' ''world'') (world0 []))))
   \<and> fst (find_store (memory_store builtin []) (Num 1)
       (snd (update_store (memory_store builtin []) (Simple 1 ''hello'' ''world'') (world0 []))))
     = Resolves (snd (stored 1 ''hello'' ''world''))"
  (is "\<forall>builtin. ?P builtin")
proof (intro allI)
  fix builtin :: "string \<Rightarrow> json \<Rightarrow> exn + json criteria"
  have lookup: "\<forall>k c. fst (findOne (collection (memory_store builtin [])) k c) = Reply (map_of c k)"
    by (simp add: memory_store_def memory_collection_def)
  have upsert: "\<forall>k d c. fst (updateOne (collection (memory_store builtin [])) k (Document d) True c) = Reply ()
      \<and> map_of (snd (updateOne (collection (memory_store builtin [])) k (Document d) True c)) = (map_of c)(k \<mapsto> d)"
    by (simp add: memory_store_def memory_collection_def update_conv')
  have sel: "key_of (options (memory_store builtin [])) = field ''uid''"
    "value_of (options (memory_store builtin [])) = (\<lambda>entry. entry)"
    "entry_of (options (memory_store builtin [])) = (\<lambda>the_id data. assign data [(''_id'', the_id)])"
    "fromJSON (memory_store builtin []) = (\<lambda>data. data)"
    by (simp_all add: memory_store_def)
  show "?P builtin"
    using update_store_idempotent [OF lookup upsert, of "Simple 1 ''hello'' ''world''" "world0 []"]
    by (simp add: sel Simple_def stored_def)
qed


section \<open>Bulk: order of commands and failures\<close>

text \<open>
  C10: \<^verbatim>\<open>bulk\<close> on a batch with no entries resolves and leaves the world as it is: no
  request is sent (no update, no bulk insert, no bulk delete) and the backing state is
  unchanged.
\<close>

theorem bulk_empty_batch: "bulk toStr this [] w = (Resolves (), w)"
  by (simp add: bulk_def)

text \<open>
  C3: a batch of \<^verbatim>\<open>Mrg\<close>, \<^verbatim>\<open>Ins\<close> and \<^verbatim>\<open>DEL\<close> entries should be sent as one partial update
  per \<^verbatim>\<open>Mrg\<close> entry, then the bulk insert, then the bulk delete. On the batch
  \<^verbatim>\<open>[[1, Mrg({f: Mrg({g: Rpl('v')})})], [2, DEL]]\<close>, on a collection where no call fails,
  the translation of entry 1 raises a \<^verbatim>\<open>TypeError\<close> inside its callback (the nested \<^verbatim>\<open>Mrg\<close>
  is looked up under the string the operation prints as): the promise rejects,
  no update is sent for the \<^verbatim>\<open>Mrg\<close> entry and the bulk delete of key 2 is not sent either.
  Were the operation to print as \<^verbatim>\<open>f\<close>, the update would be sent with an empty instruction.
\<close>

theorem bulk_nested_Mrg_sends_nothing:
  "bulk toStr (memory_store builtin [])
       [(Num 1, Mrg [(''f'', Mrg [(''g'', Rpl (Str ''v''))])]), (Num 2, DEL)]
       (world0 [stored 1 ''hello'' ''world'', stored 2 ''hello'' ''friend''])
     = (if toStr (Mrg [(''g'', Rpl (Str ''v''))]) = ''f''
        then (Resolves (),
              \<lparr>backing = [stored 1 ''hello'' ''world''],
               sent = [UpdateOne (Num 1) (Instruction \<lparr>dollar_set = None, dollar_unset = None\<rparr>) False,
                       DeleteMany [Num 2]]\<rparr>)
        else (Rejects (Thrown TypeError),
              world0 [stored 1 ''hello'' ''world'', stored 2 ''hello'' ''friend'']))"
  by (simp add: bulk_def underscore_updateFromDiff_def underscore_bulkRemove_def written_def
      call_def memory_store_def memory_collection_def world0_def stored_def Simple_def modify_def)

text \<open>
  What holds of the order of commands: for a batch of \<^verbatim>\<open>Mrg\<close>, \<^verbatim>\<open>Ins\<close> and \<^verbatim>\<open>DEL\<close> entries
  whose translations do not raise, when none of the commands fails on the collection,
  \<^verbatim>\<open>bulk\<close> resolves and has sent exactly \<open>bulk_commands\<close>: the partial updates of the \<^verbatim>\<open>Mrg\<close>
  entries in entry order, one per entry, then one \<^verbatim>\<open>insertMany\<close> with the values of all
  \<^verbatim>\<open>Ins\<close> entries if there are any, then one \<^verbatim>\<open>deleteMany\<close> with the keys of all \<^verbatim>\<open>DEL\<close>
  entries if there are any. Each command acts on the backing state the one before it
  has left (\<open>replay\<close>).
\<close>

theorem bulk_command_order:
  fixes this :: "('k, 'v, 'x, 'c) Store"
  assumes supported: "list_all (\<lambda>entry. supported (snd entry)) patch"
    and translated: "list_all (\<lambda>entry. translates toStr (snd entry)) patch"
    and succeed: "all_succeed (collection this) (bulk_commands toStr this patch) (backing w)"
  shows "bulk toStr this patch w
           = (Resolves (),
              \<lparr>backing = replay (collection this) (bulk_commands toStr this patch) (backing w),
               sent = sent w @ bulk_commands toStr this patch\<rparr>)
       \<and> length (update_commands toStr patch :: ('k, 'v, 'x) request list)
           = length (filter (\<lambda>entry. is_Mrg (snd entry)) patch)"
proof (intro conjI)
  let ?chain = "update_callbacks patch
          @ (if insert_values this patch = [] then [] else [BulkInsert (insert_values this patch)])
          @ (if delete_keys patch = [] then [] else [BulkRemove (delete_keys patch)])"
  have bulk: "bulk toStr this patch w = settle toStr this ?chain w"
    by (rule bulk_supported [OF supported])
  have cmds: "callback_commands toStr ?chain = bulk_commands toStr this patch"
    by (rule callback_commands_bulk [OF translated])
  have "length (callback_commands toStr ?chain) = length ?chain"
    unfolding cmds
    by (simp add: bulk_commands_def length_update_commands length_update_callbacks)
  moreover from succeed have "all_succeed (collection this) (callback_commands toStr ?chain) (backing w)"
    unfolding cmds .
  ultimately have "settle toStr this ?chain w
     = (Resolves (),
        \<lparr>backing = replay (collection this) (callback_commands toStr ?chain) (backing w),
         sent = sent w @ callback_commands toStr ?chain\<rparr>)"
    by (rule settle_all_succeed)
  then show "bulk toStr this patch w
           = (Resolves (),
              \<lparr>backing = replay (collection this) (bulk_commands toStr this patch) (backing w),
               sent = sent w @ bulk_commands toStr this patch\<rparr>)"
    unfolding bulk cmds .
  show "length (update_commands toStr patch :: ('k, 'v, 'x) request list)
           = length (filter (\<lambda>entry. is_Mrg (snd entry)) patch)"
    by (rule length_update_commands)
qed

text \<open>
  A batch with two \<^verbatim>\<open>Mrg\<close> entries, one \<^verbatim>\<open>Ins\<close> and one \<^verbatim>\<open>DEL\<close> on the collection in memory:
  both updates first, then the insert, then the delete.
\<close>

theorem bulk_command_order_witness:
  "\<forall>toStr builtin.
   bulk toStr (memory_store builtin [])
       [(Num 1, Mrg [(''b'', Rpl (Str ''pizza''))]), (Num 4, Ins (Obj [(''_id'', Num 4)])),
        (Num 2, DEL), (Num 3, Mrg [(''a'', DEL)])]
       (world0 [stored 1 ''hello'' ''world'', stored 2 ''hello'' ''friend'',
                stored 3 ''goodbye'' ''Mr. Chips''])
     = (Resolves (),
        \<lparr>backing = [stored 1 ''hello'' ''pizza'',
                    (Num 3, Obj [(''uid'', Num 3), (''b'', Str ''Mr. Chips''), (''_id'', Num 3)]),
                    (Num 4, Obj [(''_id'', Num 4)])],
         sent = [UpdateOne (Num 1)
                   (Instruction \<lparr>dollar_set = Some [(''b'', Str ''pizza'')], dollar_unset = None\<rparr>)
                   False,
                 UpdateOne (Num 3)
                   (Instruction \<lparr>dollar_set = None, dollar_unset = Some [(''a'', [])]\<rparr>) False,
                 InsertMany [Obj [(''_id'', Num 4)]],
                 DeleteMany [Num 2]]\<rparr>)"
  (is "\<forall>toStr builtin. ?P toStr builtin")
proof (intro allI)
  fix toStr :: "json patch \<Rightarrow> string" and builtin :: "string \<Rightarrow> json \<Rightarrow> exn + json criteria"
  let ?patch = "[(Num 1, Mrg [(''b'', Rpl (Str ''pizza''))]), (Num 4, Ins (Obj [(''_id'', Num 4)])),
      (Num 2, DEL), (Num 3, Mrg [(''a'', DEL)])]"
  let ?w = "world0 [stored 1 ''hello'' ''world'', stored 2 ''hello'' ''friend'',
                stored 3 ''goodbye'' ''Mr. Chips'']"
  have cmds: "bulk_commands toStr (memory_store builtin []) ?patch
     = [UpdateOne (Num 1)
          (Instruction \<lparr>dollar_set = Some [(''b'', Str ''pizza'')], dollar_unset = None\<rparr>) False,
        UpdateOne (Num 3)
          (Instruction \<lparr>dollar_set = None, dollar_unset = Some [(''a'', [])]\<rparr>) False,
        InsertMany [Obj [(''_id'', Num 4)]],
        DeleteMany [Num 2]]"
    by (simp add: bulk_commands_def update_commands_def memory_store_def)
  have ok: "list_all (\<lambda>entry. supported (snd entry)) ?patch"
    by simp
  have translated: "list_all (\<lambda>entry. translates toStr (snd entry)) ?patch"
    by (simp add: translates_def)
  have succeed: "all_succeed (collection (memory_store builtin []))
      (bulk_commands toStr (memory_store builtin []) ?patch) (backing ?w)"
    unfolding cmds
    by (simp add: memory_store_def memory_collection_def world0_def stored_def Simple_def
        modify_def)
  have after: "replay (collection (memory_store builtin []))
      (bulk_commands toStr (memory_store builtin []) ?patch) (backing ?w)
     = [stored 1 ''hello'' ''pizza'',
        (Num 3, Obj [(''uid'', Num 3), (''b'', Str ''Mr. Chips''), (''_id'', Num 3)]),
        (Num 4, Obj [(''_id'', Num 4)])]"
    unfolding cmds
    by (simp add: replay_def memory_store_def memory_collection_def world0_def stored_def
        Simple_def modify_def)
  have empty: "sent ?w = []"
    by (simp add: world0_def)
  from bulk_command_order [OF ok translated succeed]
  have "bulk toStr (memory_store builtin []) ?patch ?w
           = (Resolves (),
              \<lparr>backing = replay (collection (memory_store builtin []))
                            (bulk_commands toStr (memory_store builtin []) ?patch) (backing ?w),
               sent = sent ?w @ bulk_commands toStr (memory_store builtin []) ?patch\<rparr>)"
    by (rule conjunct1)
  then show "?P toStr builtin"
    unfolding after empty unfolding cmds by simp
qed

text \<open>
  C4: when the call of \<^verbatim>\<open>updateOne\<close> for a \<^verbatim>\<open>Mrg\<close> entry fails, after the updates chained
  before it (\<open>earlier\<close>) have succeeded and led to the world \<open>w1\<close>, \<^verbatim>\<open>bulk\<close> fails (its promise
  rejects with the failure of the collection, or \<^verbatim>\<open>bulk\<close> had already thrown). The final
  world is \<open>w1\<close> with the failed request added: the backing state is what the failed call
  left of the state after the earlier updates, which stay applied, and nothing is sent
  after the failed request. All requests sent are updates: the bulk insert and the bulk
  delete are never sent.
\<close>

theorem bulk_update_failure:
  fixes this :: "('k, 'v, 'x, 'c) Store"
  assumes loop: "bulk_for_of toStr this patch [] [] []
                   = (thrown, earlier @ UpdateFromDiff key op # later, inserts, deletes)"
    and earlier_ok: "settle toStr this earlier w = (Resolves (), w1)"
    and command: "diffToMongo toStr (data_fields op) = Inr command"
    and fails: "updateOne (collection this) key (Instruction command) False (backing w1) = (Failure, c2)"
  shows "fst (bulk toStr this patch w) = (case thrown of None \<Rightarrow> Rejects MongoError | Some e \<Rightarrow> Throws e)
       \<and> snd (bulk toStr this patch w)
           = \<lparr>backing = c2, sent = sent w1 @ [UpdateOne key (Instruction command) False]\<rparr>
       \<and> w1 = \<lparr>backing = replay (collection this) (callback_commands toStr earlier) (backing w),
                sent = sent w @ callback_commands toStr earlier\<rparr>
       \<and> list_all is_update (callback_commands toStr earlier :: ('k, 'v, 'x) request list)"
proof (intro conjI)
  have stop: "settle toStr this (earlier @ UpdateFromDiff key op # later') w
     = (Rejects MongoError,
        \<lparr>backing = c2, sent = sent w1 @ [UpdateOne key (Instruction command) False]\<rparr>)" for later'
    by (rule settle_update_fails [OF earlier_ok command fails])
  show "fst (bulk toStr this patch w) = (case thrown of None \<Rightarrow> Rejects MongoError | Some e \<Rightarrow> Throws e)"
  proof (cases thrown)
    case None
    then show ?thesis
      using loop stop [of "later @ [BulkInsert inserts] @ [BulkRemove deletes]"]
        stop [of "later @ [BulkInsert inserts]"] stop [of "later @ [BulkRemove deletes]"] stop [of later]
      by (simp add: bulk_def Let_def)
  next
    case (Some e)
    then show ?thesis using loop by (simp add: bulk_def)
  qed
  show "snd (bulk toStr this patch w)
           = \<lparr>backing = c2, sent = sent w1 @ [UpdateOne key (Instruction command) False]\<rparr>"
  proof (cases thrown)
    case None
    then show ?thesis
      using loop stop [of "later @ [BulkInsert inserts] @ [BulkRemove deletes]"]
        stop [of "later @ [BulkInsert inserts]"] stop [of "later @ [BulkRemove deletes]"] stop [of later]
      by (simp add: bulk_def Let_def)
  next
    case (Some e)
    then show ?thesis using loop stop [of later] by (simp add: bulk_def)
  qed
  from earlier_ok have "fst (settle toStr this earlier w) = Resolves ()" by simp
  from settle_resolved [OF this] earlier_ok
  show "w1 = \<lparr>backing = replay (collection this) (callback_commands toStr earlier) (backing w),
                sent = sent w @ callback_commands toStr earlier\<rparr>"
    by simp
  have "earlier @ UpdateFromDiff key op # later = update_callbacks (before_Rpl patch)"
  proof (cases "list_all (\<lambda>entry. supported (snd entry)) patch")
    case True
    then have "before_Rpl patch = patch"
      unfolding before_Rpl_def by (simp add: list_all_iff)
    with bulk_for_of_supported [OF True, of toStr this "[]" "[]" "[]"] loop show ?thesis
      by simp
  next
    case False
    from bulk_for_of_Rpl [OF False, of toStr this "[]" "[]" "[]"] loop show ?thesis
      by auto
  qed
  then have "list_all is_update (callback_commands toStr (earlier @ UpdateFromDiff key op # later)
      :: ('k, 'v, 'x) request list)"
    by (simp only: list_all_is_update_callbacks)
  then show "list_all is_update (callback_commands toStr earlier :: ('k, 'v, 'x) request list)"
    by (simp add: callback_commands_append)
qed

text \<open>
  The update of key 2 fails on a collection where key 2 is down: the update of key 1
  stays applied, the insert of key 4 and the delete of key 3 are not sent.
\<close>

theorem bulk_update_failure_witness:
  "\<forall>toStr builtin.
   fst (bulk toStr (memory_store builtin [Num 2])
       [(Num 1, Mrg [(''b'', Rpl (Str ''pizza''))]), (Num 4, Ins (Obj [(''_id'', Num 4)])),
        (Num 2, Mrg [(''a'', DEL)]), (Num 3, DEL)]
       (world0 [stored 1 ''hello'' ''world'', stored 2 ''hello'' ''friend'',
                stored 3 ''goodbye'' ''Mr. Chips''])) = Rejects MongoError
   \<and> snd (bulk toStr (memory_store builtin [Num 2])
       [(Num 1, Mrg [(''b'', Rpl (Str ''pizza''))]), (Num 4, Ins (Obj [(''_id'', Num 4)])),
        (Num 2, Mrg [(''a'', DEL)]), (Num 3, DEL)]
       (world0 [stored 1 ''hello'' ''world'', stored 2 ''hello'' ''friend'',
                stored 3 ''goodbye'' ''Mr. Chips'']))
     = \<lparr>backing = [stored 1 ''hello'' ''pizza'', stored 2 ''hello'' ''friend'',
                    stored 3 ''goodbye'' ''Mr. Chips''],
        sent = [UpdateOne (Num 1)
                  (Instruction \<lparr>dollar_set = Some [(''b'', Str ''pizza'')], dollar_unset = None\<rparr>)
                  False,
                UpdateOne (Num 2)
                  (Instruction \<lparr>dollar_set = None, dollar_unset = Some [(''a'', [])]\<rparr>)
                  False]\<rparr>"
  (is "\<forall>toStr builtin. ?P toStr builtin")
proof (intro allI)
  fix toStr :: "json patch \<Rightarrow> string" and builtin :: "string \<Rightarrow> json \<Rightarrow> exn + json criteria"
  let ?patch = "[(Num 1, Mrg [(''b'', Rpl (Str ''pizza''))]), (Num 4, Ins (Obj [(''_id'', Num 4)])),
        (Num 2, Mrg [(''a'', DEL)]), (Num 3, DEL)]"
  let ?w = "world0 [stored 1 ''hello'' ''world'', stored 2 ''hello'' ''friend'',
                stored 3 ''goodbye'' ''Mr. Chips'']"
  let ?c1 = "[stored 1 ''hello'' ''pizza'', stored 2 ''hello'' ''friend'',
                    stored 3 ''goodbye'' ''Mr. Chips'']"
  let ?u1 = "UpdateOne (Num 1)
                  (Instruction \<lparr>dollar_set = Some [(''b'', Str ''pizza'')], dollar_unset = None\<rparr>)
                  False :: (json, json, json) request"
  have loop: "bulk_for_of toStr (memory_store builtin [Num 2]) ?patch [] [] []
      = (None,
         [UpdateFromDiff (Num 1) (Mrg [(''b'', Rpl (Str ''pizza''))])]
           @ UpdateFromDiff (Num 2) (Mrg [(''a'', DEL)]) # [],
         [Obj [(''_id'', Num 4)]], [Num 3])"
    by (simp add: memory_store_def)
  have earlier_ok: "settle toStr (memory_store builtin [Num 2])
        [UpdateFromDiff (Num 1) (Mrg [(''b'', Rpl (Str ''pizza''))])] ?w
      = (Resolves (), \<lparr>backing = ?c1, sent = [?u1]\<rparr>)"
    by (simp add: underscore_updateFromDiff_def written_def call_def memory_store_def
        memory_collection_def world0_def stored_def Simple_def modify_def)
  have command: "diffToMongo toStr (data_fields (Mrg [(''a'', DEL)]))
      = Inr \<lparr>dollar_set = None, dollar_unset = Some [(''a'', [])]\<rparr>"
    by simp
  have fails: "updateOne (collection (memory_store builtin [Num 2])) (Num 2)
        (Instruction \<lparr>dollar_set = None, dollar_unset = Some [(''a'', [])]\<rparr>) False
        (backing \<lparr>backing = ?c1, sent = [?u1]\<rparr>) = (Failure, ?c1)"
    by (simp add: memory_store_def memory_collection_def)
  from bulk_update_failure [OF loop earlier_ok command fails]
  show "?P toStr builtin" by simp
qed

text \<open>
  What holds on every batch with a \<^verbatim>\<open>Rpl\<close> entry: \<^verbatim>\<open>bulk\<close> throws the error
  "Unkown diff operation" for a \<^verbatim>\<open>Rpl\<close> entry of the batch, from inside the loop. The
  requests sent are an initial part of the updates chained for the \<^verbatim>\<open>Mrg\<close> entries before the first
  \<^verbatim>\<open>Rpl\<close> entry: no bulk insert, no bulk delete, nothing for the \<^verbatim>\<open>Rpl\<close> entry or an entry
  after it. When no \<^verbatim>\<open>Mrg\<close> entry comes before the first \<^verbatim>\<open>Rpl\<close> entry, the world is
  unchanged: nothing is sent and the backing state is as before.
\<close>

theorem bulk_Rpl_throws:
  fixes this :: "('k, 'v, 'x, 'c) Store"
  assumes "(key0, Rpl data0) \<in> set patch"
  shows "(\<exists>key data. (key, Rpl data) \<in> set patch
            \<and> fst (bulk toStr this patch w)
                = Throws (Error (''Unkown diff operation '' @ toStr (Rpl data))))
       \<and> (\<exists>n. snd (bulk toStr this patch w)
            = \<lparr>backing = replay (collection this)
                            (take n (callback_commands toStr (update_callbacks (before_Rpl patch)))) (backing w),
               sent = sent w @ take n (callback_commands toStr (update_callbacks (before_Rpl patch)))\<rparr>)
       \<and> (list_all (\<lambda>entry. \<not> is_Mrg (snd entry)) (before_Rpl patch)
            \<longrightarrow> snd (bulk toStr this patch w) = w)"
proof -
  from assms have unsupported: "\<not> list_all (\<lambda>entry. supported (snd entry)) patch"
    by (force simp: list_all_iff)
  have "\<exists>key data. (key, Rpl data) \<in> set patch
     \<and> bulk_for_of toStr this patch [] [] []
         = (Some (Error (''Unkown diff operation '' @ toStr (Rpl data))),
            update_callbacks (before_Rpl patch),
            insert_values this (before_Rpl patch),
            delete_keys (before_Rpl patch))"
    using bulk_for_of_Rpl [OF unsupported, of toStr this "[]" "[]" "[]"] by simp
  then obtain key data where entry: "(key, Rpl data) \<in> set patch"
    and loop: "bulk_for_of toStr this patch [] [] []
         = (Some (Error (''Unkown diff operation '' @ toStr (Rpl data))),
            update_callbacks (before_Rpl patch),
            insert_values this (before_Rpl patch),
            delete_keys (before_Rpl patch))"
    by blast
  have out: "fst (bulk toStr this patch w)
                = Throws (Error (''Unkown diff operation '' @ toStr (Rpl data)))"
    and world: "snd (bulk toStr this patch w)
                = snd (settle toStr this (update_callbacks (before_Rpl patch)) w)"
    using loop by (simp_all add: bulk_def)
  have sends: "\<exists>n. snd (bulk toStr this patch w)
            = \<lparr>backing = replay (collection this)
                            (take n (callback_commands toStr (update_callbacks (before_Rpl patch)))) (backing w),
               sent = sent w @ take n (callback_commands toStr (update_callbacks (before_Rpl patch)))\<rparr>"
  proof -
    from settle_prefix [of toStr this "update_callbacks (before_Rpl patch)" w]
    obtain n where "snd (settle toStr this (update_callbacks (before_Rpl patch)) w)
         = \<lparr>backing = replay (collection this)
              (take n (callback_commands toStr (update_callbacks (before_Rpl patch)))) (backing w),
            sent = sent w @ take n (callback_commands toStr (update_callbacks (before_Rpl patch)))\<rparr>"
      ..
    then have "snd (bulk toStr this patch w)
            = \<lparr>backing = replay (collection this)
                            (take n (callback_commands toStr (update_callbacks (before_Rpl patch)))) (backing w),
               sent = sent w @ take n (callback_commands toStr (update_callbacks (before_Rpl patch)))\<rparr>"
      by (simp only: world)
    then show ?thesis ..
  qed
  have unchanged: "snd (bulk toStr this patch w) = w"
    if none: "list_all (\<lambda>entry. \<not> is_Mrg (snd entry)) (before_Rpl patch)"
  proof -
    have "(update_callbacks (before_Rpl patch) :: ('k, 'v, 'x) callback list) = []"
      using none by (rule update_callbacks_no_Mrg)
    then have "settle toStr this (update_callbacks (before_Rpl patch)) w = (Resolves (), w)"
      by simp
    then show ?thesis
      by (simp add: world)
  qed
  show ?thesis
  proof (intro conjI impI)
    show "\<exists>key data. (key, Rpl data) \<in> set patch
            \<and> fst (bulk toStr this patch w)
                = Throws (Error (''Unkown diff operation '' @ toStr (Rpl data)))"
    proof (intro exI conjI)
      show "(key, Rpl data) \<in> set patch" by (rule entry)
      show "fst (bulk toStr this patch w)
                = Throws (Error (''Unkown diff operation '' @ toStr (Rpl data)))"
        by (rule out)
    qed
    from sends show "\<exists>n. snd (bulk toStr this patch w)
            = \<lparr>backing = replay (collection this)
                            (take n (callback_commands toStr (update_callbacks (before_Rpl patch)))) (backing w),
               sent = sent w @ take n (callback_commands toStr (update_callbacks (before_Rpl patch)))\<rparr>" .
    assume "list_all (\<lambda>entry. \<not> is_Mrg (snd entry)) (before_Rpl patch)"
    from unchanged [OF this] show "snd (bulk toStr this patch w) = w" .
  qed
qed

text \<open>
  A batch whose \<^verbatim>\<open>Rpl\<close> entry comes after an \<^verbatim>\<open>Ins\<close> entry and before a \<^verbatim>\<open>Mrg\<close> entry: \<^verbatim>\<open>bulk\<close>
  throws and the world is unchanged.
\<close>

theorem bulk_Rpl_throws_witness:
  "\<forall>toStr builtin.
   (Num 2, Rpl (Str ''x''))
     \<in> set [(Num 4, Ins (Obj [(''_id'', Num 4)])), (Num 2, Rpl (Str ''x'')),
            (Num 1, Mrg [(''b'', Rpl (Str ''pizza''))])]
   \<and> fst (bulk toStr (memory_store builtin [])
        [(Num 4, Ins (Obj [(''_id'', Num 4)])), (Num 2, Rpl (Str ''x'')),
         (Num 1, Mrg [(''b'', Rpl (Str ''pizza''))])]
        (world0 [stored 1 ''hello'' ''world'']))
      = Throws (Error (''Unkown diff operation '' @ toStr (Rpl (Str ''x''))))
   \<and> snd (bulk toStr (memory_store builtin [])
        [(Num 4, Ins (Obj [(''_id'', Num 4)])), (Num 2, Rpl (Str ''x'')),
         (Num 1, Mrg [(''b'', Rpl (Str ''pizza''))])]
        (world0 [stored 1 ''hello'' ''world'']))
      = world0 [stored 1 ''hello'' ''world'']"
  (is "\<forall>toStr builtin. ?P toStr builtin")
proof (intro allI)
  fix toStr :: "json patch \<Rightarrow> string" and builtin :: "string \<Rightarrow> json \<Rightarrow> exn + json criteria"
  let ?patch = "[(Num 4, Ins (Obj [(''_id'', Num 4)])), (Num 2, Rpl (Str ''x'')),
         (Num 1, Mrg [(''b'', Rpl (Str ''pizza''))])]"
  let ?w = "world0 [stored 1 ''hello'' ''world'']"
  have entry: "(Num 2, Rpl (Str ''x'')) \<in> set ?patch"
    by simp
  have none: "list_all (\<lambda>entry. \<not> is_Mrg (snd entry)) (before_Rpl ?patch)"
    by (simp add: before_Rpl_def)
  note inst = bulk_Rpl_throws [OF entry, of toStr "memory_store builtin []" ?w]
  from inst obtain key data where found: "(key, Rpl data) \<in> set ?patch"
    and thrown: "fst (bulk toStr (memory_store builtin []) ?patch ?w)
                   = Throws (Error (''Unkown diff operation '' @ toStr (Rpl data)))"
    by (elim conjE exE)
  from found have "data = Str ''x''" by simp
  with thrown have out: "fst (bulk toStr (memory_store builtin []) ?patch ?w)
                   = Throws (Error (''Unkown diff operation '' @ toStr (Rpl (Str ''x''))))"
    by simp
  from inst none have same: "snd (bulk toStr (memory_store builtin []) ?patch ?w) = ?w"
    by (elim conjE) (erule mp)
  from entry out same show "?P toStr builtin"
    by (intro conjI)
qed

text \<open>
  C2: a batch with a \<^verbatim>\<open>Rpl\<close> entry should fail with nothing sent and the collection
  unchanged. On the batch \<^verbatim>\<open>[[1, Mrg({b: Rpl('pizza')})], [2, Rpl('x')]]\<close> \<^verbatim>\<open>bulk\<close> throws,
  but the callback of entry 1 was chained on the resolved promise \<^verbatim>\<open>updates\<close> before the
  \<^verbatim>\<open>throw\<close>, so it runs: \<^verbatim>\<open>updateOne\<close> is sent for key 1 and the stored document changes.
  (The inserts and deletes are only queued in arrays and are not sent.)
\<close>

theorem bulk_Rpl_after_Mrg_sends:
  "fst (bulk toStr (memory_store builtin [])
        [(Num 1, Mrg [(''b'', Rpl (Str ''pizza''))]), (Num 2, Rpl (Str ''x''))]
        (world0 [stored 1 ''hello'' ''world'']))
      = Throws (Error (''Unkown diff operation '' @ toStr (Rpl (Str ''x''))))
   \<and> snd (bulk toStr (memory_store builtin [])
        [(Num 1, Mrg [(''b'', Rpl (Str ''pizza''))]), (Num 2, Rpl (Str ''x''))]
        (world0 [stored 1 ''hello'' ''world'']))
      = \<lparr>backing = [stored 1 ''hello'' ''pizza''],
         sent = [UpdateOne (Num 1)
                  (Instruction \<lparr>dollar_set = Some [(''b'', Str ''pizza'')], dollar_unset = None\<rparr>)
                  False]\<rparr>
   \<and> [stored 1 ''hello'' ''pizza''] \<noteq> [stored 1 ''hello'' ''world'']"
  by (simp add: bulk_def underscore_updateFromDiff_def written_def call_def memory_store_def
        memory_collection_def world0_def stored_def Simple_def modify_def)

end
